theory Spec2Isabelle
  imports Main "HOL-Library.Word"
begin

section \<open>Ledger-chain replay: data model\<close>

text \<open>
  A shallow embedding of \<^verbatim>\<open>src/catchup/ApplyLedgerChainWork.cpp\<close>. Ledger sequence
  numbers are the XDR type \<^verbatim>\<open>uint32\<close>: addition wraps around at \<open>2 ^ 32\<close> and
  \<open><\<close> is the unsigned comparison. Hashes are 32 opaque bytes.
\<close>

type_synonym uint32 = "32 word"
type_synonym uint64 = "64 word"
type_synonym Hash = "256 word"
type_synonym TransactionEnvelope = string

record StellarValue =
  txSetHash :: Hash
  closeTime :: uint64

record LedgerHeader =
  ledgerSeq :: uint32
  previousLedgerHash :: Hash
  scpValue :: StellarValue
  bucketListHash :: Hash

record LedgerHeaderHistoryEntry =
  hash :: Hash
  header :: LedgerHeader

text \<open>\<^verbatim>\<open>TransactionSet\<close> and \<^verbatim>\<open>TransactionHistoryEntry\<close> of the XDR; the fields
  \<^verbatim>\<open>previousLedgerHash\<close>, \<^verbatim>\<open>txs\<close> and \<^verbatim>\<open>ledgerSeq\<close> carry a prefix here because
  record fields share one name space.\<close>

record TransactionSet =
  ts_previousLedgerHash :: Hash
  ts_txs :: "TransactionEnvelope list"

record TransactionHistoryEntry =
  txh_ledgerSeq :: uint32
  txSet :: TransactionSet

text \<open>The value-initialised \<^verbatim>\<open>TransactionHistoryEntry()\<close>.\<close>

definition TransactionHistoryEntry_init :: TransactionHistoryEntry where
  "TransactionHistoryEntry_init =
     \<lparr>txh_ledgerSeq = 0, txSet = \<lparr>ts_previousLedgerHash = 0, ts_txs = []\<rparr>\<rparr>"

record LedgerRange =
  mFirst :: uint32
  mLast :: uint32

text \<open>
  A \<^verbatim>\<open>TxSetFrame\<close> is kept as the constructor call that built it: the one-argument
  constructor makes the empty set on top of a previous ledger hash, the two-argument one
  wraps an archived \<^verbatim>\<open>TransactionSet\<close> for a network. What \<^verbatim>\<open>getContentsHash\<close> computes
  from a frame is not part of this file's source and is a parameter below.
\<close>

datatype TxSetFrame =
  TxSetFrame_previous Hash
| TxSetFrame_xdr Hash TransactionSet

record LedgerCloseData =
  lcd_ledgerSeq :: uint32
  lcd_txSet :: TxSetFrame
  lcd_value :: StellarValue

subsection \<open>Exceptions and results\<close>

text \<open>
  The \<^verbatim>\<open>std::runtime_error\<close>s thrown by the replay itself are told apart by their
  message. \<open>exn\<close> covers the exception classes the handlers of \<^verbatim>\<open>onRun\<close> distinguish,
  all of them derived from \<^verbatim>\<open>std::exception\<close>. A function that can throw returns
  \<open>exn + 'a\<close> (\<open>Inl\<close> the exception) together with the state it leaves behind.
\<close>

datatype replay_error =
  FailedToConnectOnLCLPredecessor
| DisagreedOnHashAtLCL
| ReplayOvershot
| DisagreedOnLCLHash
| TxSetHashDiffers
| ProducedMismatchedLedgerHash

datatype exn =
  InvariantDoesNotHold
| FileSystemException
| runtime_error replay_error
| std_exception

datatype State = WORK_SUCCESS | WORK_RUNNING | WORK_FAILURE

subsection \<open>Checkpoint record readers\<close>

text \<open>
  Modelled from the spec: \<^verbatim>\<open>XDRInputFileStream\<close> (section 4.3, Checkpoint Record
  Readers) is declared outside this file. A stream is closed, or open on the records
  still to be read; a record that cannot be decoded is an \<open>Inl\<close> item and reading it
  throws. \<open>good\<close> is the boolean liveness check, \<open>readOne\<close> yields the next record or
  end-of-stream (\<open>None\<close>).
\<close>

datatype 'a XDRInputFileStream = Closed | Opened "(exn + 'a) list"

fun good :: "'a XDRInputFileStream \<Rightarrow> bool" where
  "good Closed = False"
| "good (Opened xs) = True"

fun readOne :: "'a XDRInputFileStream \<Rightarrow> (exn + 'a option) \<times> 'a XDRInputFileStream" where
  "readOne Closed = (Inr None, Closed)"
| "readOne (Opened []) = (Inr None, Opened [])"
| "readOne (Opened (Inr r # rest)) = (Inr (Some r), Opened rest)"
| "readOne (Opened (Inl e # rest)) = (Inl e, Opened rest)"

fun pending :: "'a XDRInputFileStream \<Rightarrow> nat" where
  "pending Closed = 0"
| "pending (Opened xs) = length xs"

subsection \<open>Collaborators and state\<close>

text \<open>
  The collaborators reached through \<^verbatim>\<open>mApp\<close> and the download directory are parameters:
  the ledger manager (the Ledger Application Sink) over its own state \<open>'l\<close>, the history
  manager's checkpoint arithmetic, the network id, the content hash of a transaction set,
  and the two uncompressed files of each checkpoint (\<open>None\<close> when the file cannot be
  opened). \<open>closeLedger\<close> returns the exception it throws, if any, and the sink's state.
\<close>

record 'l Application =
  getLastClosedLedgerHeader :: "'l \<Rightarrow> LedgerHeaderHistoryEntry"
  closeLedger :: "LedgerCloseData \<Rightarrow> 'l \<Rightarrow> exn option \<times> 'l"
  checkpointContainingLedger :: "uint32 \<Rightarrow> uint32"
  getCheckpointFrequency :: uint32
  getNetworkID :: Hash
  getContentsHash :: "TxSetFrame \<Rightarrow> Hash"
  ledgerFile :: "uint32 \<Rightarrow> (exn + LedgerHeaderHistoryEntry) list option"
  transactionsFile :: "uint32 \<Rightarrow> (exn + TransactionHistoryEntry) list option"

definition getLastClosedLedgerNum :: "'l Application \<Rightarrow> 'l \<Rightarrow> uint32" where
  "getLastClosedLedgerNum app l = ledgerSeq (header (getLastClosedLedgerHeader app l))"

text \<open>
  The mutable state outside the work object: the sink's state, the log of the
  \<^verbatim>\<open>closeLedger\<close> calls made so far, the two meters (\<^verbatim>\<open>Mark()\<close> adds one) and the number of
  \<^verbatim>\<open>logAndUpdateCatchupStatus\<close> calls.
\<close>

record 'l world =
  lm :: 'l
  closeLedgerCalls :: "LedgerCloseData list"
  mApplyLedgerSuccess :: nat
  mApplyLedgerFailure :: nat
  catchupStatusUpdates :: nat

text \<open>The members of \<^verbatim>\<open>ApplyLedgerChainWork\<close>; \<open>mLastApplied\<close> is the caller's variable
  the work holds by reference.\<close>

record work =
  mRange :: LedgerRange
  mLastApplied :: LedgerHeaderHistoryEntry
  mCurrSeq :: uint32
  mHdrIn :: "LedgerHeaderHistoryEntry XDRInputFileStream"
  mTxIn :: "TransactionHistoryEntry XDRInputFileStream"
  mTxHistoryEntry :: TransactionHistoryEntry
  mFilesOpen :: bool

section \<open>The operations\<close>

definition onReset :: "'l Application \<Rightarrow> 'l world \<Rightarrow> work \<Rightarrow> work" where
  "onReset app a w =
     w\<lparr>mLastApplied := getLastClosedLedgerHeader app (lm a),
       mCurrSeq := checkpointContainingLedger app (mFirst (mRange w)),
       mHdrIn := Closed,
       mTxIn := Closed,
       mFilesOpen := False\<rparr>"

definition openCurrentInputFiles :: "'l Application \<Rightarrow> work \<Rightarrow> (exn + unit) \<times> work" where
  "openCurrentInputFiles app w =
     (let w0 = w\<lparr>mHdrIn := Closed, mTxIn := Closed\<rparr> in
      case ledgerFile app (mCurrSeq w) of
        None \<Rightarrow> (Inl FileSystemException, w0)
      | Some hs \<Rightarrow>
          (let w1 = w0\<lparr>mHdrIn := Opened hs\<rparr> in
           case transactionsFile app (mCurrSeq w) of
             None \<Rightarrow> (Inl FileSystemException, w1)
           | Some ts \<Rightarrow>
               (Inr (), w1\<lparr>mTxIn := Opened ts,
                           mTxHistoryEntry := TransactionHistoryEntry_init,
                           mFilesOpen := True\<rparr>)))"

lemma readOne_pending:
  "good s \<Longrightarrow> readOne s = (Inr (Some r), s') \<Longrightarrow> pending s' < pending s"
  by (induction s rule: readOne.induct) auto

text \<open>
  The \<^verbatim>\<open>do ... while (mTxIn && mTxIn.readOne(mTxHistoryEntry))\<close> loop of
  \<^verbatim>\<open>getCurrentTxSet\<close> over the look-ahead entry and the transaction stream. \<open>Some\<close> is the
  \<^verbatim>\<open>return\<close> inside the loop, \<open>None\<close> is leaving the loop (by \<^verbatim>\<open>break\<close> or because the
  loop condition is false).
\<close>

function getCurrentTxSet_loop ::
  "Hash \<Rightarrow> uint32 \<Rightarrow> TransactionHistoryEntry \<Rightarrow> TransactionHistoryEntry XDRInputFileStream \<Rightarrow>
   (exn + TxSetFrame option) \<times> TransactionHistoryEntry \<times> TransactionHistoryEntry XDRInputFileStream"
where
  "getCurrentTxSet_loop nid seq e s =
     (if txh_ledgerSeq e < seq then
        (if good s then
           (case readOne s of
              (Inl x, s') \<Rightarrow> (Inl x, e, s')
            | (Inr None, s') \<Rightarrow> (Inr None, e, s')
            | (Inr (Some e'), s') \<Rightarrow> getCurrentTxSet_loop nid seq e' s')
         else (Inr None, e, s))
      else if txh_ledgerSeq e > seq then (Inr None, e, s)
      else (Inr (Some (TxSetFrame_xdr nid (txSet e))), e, s))"
  by pat_completeness auto
termination
  by (relation "measure (\<lambda>(nid, seq, e, s). pending s)")
    (auto intro: readOne_pending [OF _ sym])

declare getCurrentTxSet_loop.simps [simp del]

definition getCurrentTxSet :: "'l Application \<Rightarrow> 'l world \<Rightarrow> work \<Rightarrow> (exn + TxSetFrame) \<times> work" where
  "getCurrentTxSet app a w =
     (let seq = getLastClosedLedgerNum app (lm a) + 1 in
      case getCurrentTxSet_loop (getNetworkID app) seq (mTxHistoryEntry w) (mTxIn w) of
        (r, e, s) \<Rightarrow>
          (let w' = w\<lparr>mTxHistoryEntry := e, mTxIn := s\<rparr> in
           case r of
             Inl x \<Rightarrow> (Inl x, w')
           | Inr (Some txset) \<Rightarrow> (Inr txset, w')
           | Inr None \<Rightarrow>
               (Inr (TxSetFrame_previous (hash (getLastClosedLedgerHeader app (lm a)))), w')))"

text \<open>\<^verbatim>\<open>mApplyLedgerFailure.Mark()\<close> and \<^verbatim>\<open>mApplyLedgerSuccess.Mark()\<close>.\<close>

definition markFailure :: "'l world \<Rightarrow> 'l world" where
  "markFailure a = a\<lparr>mApplyLedgerFailure := mApplyLedgerFailure a + 1\<rparr>"

definition markSuccess :: "'l world \<Rightarrow> 'l world" where
  "markSuccess a = a\<lparr>mApplyLedgerSuccess := mApplyLedgerSuccess a + 1\<rparr>"

text \<open>
  Lines 197 to 247 of \<^verbatim>\<open>applyHistoryOfSingleLedger\<close>, reached once the header read
  passed every continuity check: resolve the transaction set, compare its hash, call the
  sink, compare the resulting hash. (The \<^verbatim>\<open>BUILD_TESTS\<close> block is not part of a
  production build.)
\<close>

definition applyValidatedLedger ::
  "'l Application \<Rightarrow> 'l world \<Rightarrow> work \<Rightarrow> LedgerHeaderHistoryEntry \<Rightarrow> (exn + bool) \<times> 'l world \<times> work"
where
  "applyValidatedLedger app a w hHeader =
     (case getCurrentTxSet app a w of
        (Inl x, w2) \<Rightarrow> (Inl x, a, w2)
      | (Inr txset, w2) \<Rightarrow>
          if txSetHash (scpValue (header hHeader)) \<noteq> getContentsHash app txset
          then (Inl (runtime_error TxSetHashDiffers), markFailure a, w2)
          else
            (let closeData = \<lparr>lcd_ledgerSeq = ledgerSeq (header hHeader),
                              lcd_txSet = txset,
                              lcd_value = scpValue (header hHeader)\<rparr> in
             case closeLedger app closeData (lm a) of
               (thrown, l') \<Rightarrow>
                 (let a1 = a\<lparr>lm := l', closeLedgerCalls := closeLedgerCalls a @ [closeData]\<rparr> in
                  case thrown of
                    Some x \<Rightarrow> (Inl x, a1, w2)
                  | None \<Rightarrow>
                      if hash (getLastClosedLedgerHeader app l') \<noteq> hash hHeader
                      then (Inl (runtime_error ProducedMismatchedLedgerHash), markFailure a1, w2)
                      else (Inr True, markSuccess a1, w2\<lparr>mLastApplied := hHeader\<rparr>))))"

definition applyHistoryOfSingleLedger ::
  "'l Application \<Rightarrow> 'l world \<Rightarrow> work \<Rightarrow> (exn + bool) \<times> 'l world \<times> work"
where
  "applyHistoryOfSingleLedger app a w =
     (if \<not> good (mHdrIn w) then (Inr False, a, w)
      else
        case readOne (mHdrIn w) of
          (Inl x, s) \<Rightarrow> (Inl x, a, w\<lparr>mHdrIn := s\<rparr>)
        | (Inr None, s) \<Rightarrow> (Inr False, a, w\<lparr>mHdrIn := s\<rparr>)
        | (Inr (Some hHeader), s) \<Rightarrow>
            (let w1 = w\<lparr>mHdrIn := s\<rparr>;
                 lclHeader = getLastClosedLedgerHeader app (lm a) in
             if ledgerSeq (header hHeader) + 1 < ledgerSeq (header lclHeader)
             then (Inr True, a, w1)
             else if ledgerSeq (header hHeader) + 1 = ledgerSeq (header lclHeader)
             then
               (if hash hHeader \<noteq> previousLedgerHash (header lclHeader)
                then (Inl (runtime_error FailedToConnectOnLCLPredecessor), a, w1)
                else (Inr True, a, w1))
             else if ledgerSeq (header hHeader) = ledgerSeq (header lclHeader)
             then
               (if hash hHeader \<noteq> hash lclHeader
                then (Inl (runtime_error DisagreedOnHashAtLCL), markFailure a, w1)
                else (Inr True, a, w1))
             else if ledgerSeq (header hHeader) \<noteq> ledgerSeq (header lclHeader) + 1
             then (Inl (runtime_error ReplayOvershot), markFailure a, w1)
             else if previousLedgerHash (header hHeader) \<noteq> hash lclHeader
             then (Inl (runtime_error DisagreedOnLCLHash), markFailure a, w1)
             else applyValidatedLedger app a w1 hHeader))"

text \<open>The body of the \<^verbatim>\<open>try\<close> block of \<^verbatim>\<open>onRun\<close>.\<close>

definition onRun_try :: "'l Application \<Rightarrow> 'l world \<Rightarrow> work \<Rightarrow> (exn + State) \<times> 'l world \<times> work" where
  "onRun_try app a w =
     (case (if \<not> mFilesOpen w then openCurrentInputFiles app w else (Inr (), w)) of
        (Inl x, w1) \<Rightarrow> (Inl x, a, w1)
      | (Inr u, w1) \<Rightarrow>
          (case applyHistoryOfSingleLedger app a w1 of
             (Inl x, a2, w2) \<Rightarrow> (Inl x, a2, w2)
           | (Inr applied, a2, w2) \<Rightarrow>
               (let w3 = (if \<not> applied
                          then w2\<lparr>mCurrSeq := mCurrSeq w2 + getCheckpointFrequency app,
                                  mFilesOpen := False\<rparr>
                          else w2);
                    a3 = a2\<lparr>catchupStatusUpdates := catchupStatusUpdates a2 + 1\<rparr>;
                    lclHeader = getLastClosedLedgerHeader app (lm a3) in
                if ledgerSeq (header lclHeader) = mLast (mRange w3)
                then (Inr WORK_SUCCESS, a3, w3)
                else (Inr WORK_RUNNING, a3, w3))))"

text \<open>The three handlers of \<^verbatim>\<open>onRun\<close>, in their order: \<^verbatim>\<open>InvariantDoesNotHold\<close> is
  thrown again, \<^verbatim>\<open>FileSystemException\<close> and every other \<^verbatim>\<open>std::exception\<close> become
  \<^verbatim>\<open>WORK_FAILURE\<close>.\<close>

fun onRun_catch :: "exn \<Rightarrow> exn + State" where
  "onRun_catch InvariantDoesNotHold = Inl InvariantDoesNotHold"
| "onRun_catch FileSystemException = Inr WORK_FAILURE"
| "onRun_catch x = Inr WORK_FAILURE"

definition onRun :: "'l Application \<Rightarrow> 'l world \<Rightarrow> work \<Rightarrow> (exn + State) \<times> 'l world \<times> work" where
  "onRun app a w =
     (case onRun_try app a w of
        (Inl x, a', w') \<Rightarrow> (onRun_catch x, a', w')
      | (Inr st, a', w') \<Rightarrow> (Inr st, a', w'))"

section \<open>Definitions for the properties\<close>

text \<open>
  The continuity table of section 4.1.1 of the specification, row by row in the order of
  the table, as a function of the header read and of the sink's current LCL header.
\<close>

datatype verdict = TooOld | KnitsUp | Fatal replay_error | ValidNext

definition continuity_table :: "LedgerHeaderHistoryEntry \<Rightarrow> LedgerHeaderHistoryEntry \<Rightarrow> verdict" where
  "continuity_table h lcl =
     (if ledgerSeq (header h) + 1 < ledgerSeq (header lcl) then TooOld
      else if ledgerSeq (header h) + 1 = ledgerSeq (header lcl) then
        (if hash h = previousLedgerHash (header lcl) then KnitsUp
         else Fatal FailedToConnectOnLCLPredecessor)
      else if ledgerSeq (header h) = ledgerSeq (header lcl) then
        (if hash h = hash lcl then KnitsUp else Fatal DisagreedOnHashAtLCL)
      else if ledgerSeq (header h) \<noteq> ledgerSeq (header lcl) + 1 then Fatal ReplayOvershot
      else if previousLedgerHash (header h) \<noteq> hash lcl then Fatal DisagreedOnLCLHash
      else ValidNext)"

text \<open>
  The state in which \<^verbatim>\<open>onRun\<close> reaches \<^verbatim>\<open>applyHistoryOfSingleLedger\<close>: the files are
  opened first when they are not open.
\<close>

definition filesReady :: "'l Application \<Rightarrow> work \<Rightarrow> (exn + unit) \<times> work" where
  "filesReady app w = (if \<not> mFilesOpen w then openCurrentInputFiles app w else (Inr (), w))"

text \<open>
  Modelled from the spec: \<^verbatim>\<open>LedgerManager::closeLedger\<close> is not part of this file. Section
  6 of the specification has \<^verbatim>\<open>closeLedger(sequence, txSet, consensusValue)\<close> report the
  resulting header, and the LCL is the most recently committed ledger: when \<open>closeLedger\<close>
  returns, the LCL carries the sequence that was closed. Only the \<open>lastApplied\<close> part of
  the success property assumes it.
\<close>

definition sink_reports_sequence :: "'l Application \<Rightarrow> bool" where
  "sink_reports_sequence app \<longleftrightarrow>
     (\<forall>cd l l'. closeLedger app cd l = (None, l') \<longrightarrow>
        ledgerSeq (header (getLastClosedLedgerHeader app l')) = lcd_ledgerSeq cd)"

text \<open>The scheduler: \<open>n\<close> steps in which nothing is thrown inside the \<^verbatim>\<open>try\<close> block
  (\<open>None\<close> as soon as one step throws).\<close>

fun nonthrowing_steps ::
  "'l Application \<Rightarrow> nat \<Rightarrow> 'l world \<Rightarrow> work \<Rightarrow> ('l world \<times> work) option" where
  "nonthrowing_steps app 0 a w = Some (a, w)"
| "nonthrowing_steps app (Suc n) a w =
     (case onRun_try app a w of
        (Inl x, a', w') \<Rightarrow> None
      | (Inr st, a', w') \<Rightarrow> nonthrowing_steps app n a' w')"

text \<open>The scheduler calling \<^verbatim>\<open>onRun\<close> \<open>n\<close> times, whatever each call returns, with the
  list of the results.\<close>

fun onRun_steps ::
  "'l Application \<Rightarrow> nat \<Rightarrow> 'l world \<Rightarrow> work \<Rightarrow> (exn + State) list \<times> 'l world \<times> work" where
  "onRun_steps app 0 a w = ([], a, w)"
| "onRun_steps app (Suc n) a w =
     (case onRun app a w of
        (r, a', w') \<Rightarrow>
          (case onRun_steps app n a' w' of (rs, a'', w'') \<Rightarrow> (r # rs, a'', w'')))"

text \<open>Two work states that are the same, or that have their files marked not open and
  differ at most in the look-ahead entry.\<close>

definition same_but_lookahead :: "work \<Rightarrow> work \<Rightarrow> bool" where
  "same_but_lookahead w v \<longleftrightarrow>
     (w = v \<or> (mFilesOpen w = False \<and> v = w\<lparr>mTxHistoryEntry := mTxHistoryEntry v\<rparr>))"

section \<open>A concrete environment\<close>

text \<open>
  A small sink whose state is its LCL header: closing a ledger yields the header with the
  closed sequence, the previous hash plus one as hash, and may throw \<open>thrown\<close>. The
  download directory holds one checkpoint, 127, with the records \<open>hs\<close> and \<open>ts\<close>.
\<close>

definition ex_entry :: "uint32 \<Rightarrow> Hash \<Rightarrow> Hash \<Rightarrow> Hash \<Rightarrow> LedgerHeaderHistoryEntry" where
  "ex_entry n h p t =
     \<lparr>hash = h,
      header = \<lparr>ledgerSeq = n, previousLedgerHash = p,
                scpValue = \<lparr>txSetHash = t, closeTime = 0\<rparr>, bucketListHash = 0\<rparr>\<rparr>"

definition ex_txs :: "uint32 \<Rightarrow> Hash \<Rightarrow> TransactionEnvelope list \<Rightarrow> TransactionHistoryEntry" where
  "ex_txs n p txs = \<lparr>txh_ledgerSeq = n, txSet = \<lparr>ts_previousLedgerHash = p, ts_txs = txs\<rparr>\<rparr>"

fun ex_contentsHash :: "TxSetFrame \<Rightarrow> Hash" where
  "ex_contentsHash (TxSetFrame_previous p) = p"
| "ex_contentsHash (TxSetFrame_xdr nid ts) = ts_previousLedgerHash ts + of_nat (length (ts_txs ts))"

definition ex_app ::
  "exn option \<Rightarrow> (exn + LedgerHeaderHistoryEntry) list \<Rightarrow> (exn + TransactionHistoryEntry) list \<Rightarrow>
   LedgerHeaderHistoryEntry Application" where
  "ex_app thrown hs ts =
     \<lparr>getLastClosedLedgerHeader = (\<lambda>l. l),
      closeLedger = (\<lambda>cd l. (thrown,
         ex_entry (lcd_ledgerSeq cd) (hash l + 1) (hash l) (txSetHash (lcd_value cd)))),
      checkpointContainingLedger = (\<lambda>n. (n div 64 + 1) * 64 - 1),
      getCheckpointFrequency = 64,
      getNetworkID = 7,
      getContentsHash = ex_contentsHash,
      ledgerFile = (\<lambda>c. if c = 127 then Some hs else None),
      transactionsFile = (\<lambda>c. if c = 127 then Some ts else None)\<rparr>"

text \<open>The same environment with a sink that reports the sequence after the one it closed.\<close>

definition ex_skewed ::
  "(exn + LedgerHeaderHistoryEntry) list \<Rightarrow> (exn + TransactionHistoryEntry) list \<Rightarrow>
   LedgerHeaderHistoryEntry Application" where
  "ex_skewed hs ts =
     (ex_app None hs ts)
       \<lparr>closeLedger := (\<lambda>cd l. (None,
          ex_entry (lcd_ledgerSeq cd + 1) (hash l + 1) (hash l) (txSetHash (lcd_value cd))))\<rparr>"

definition ex_world :: "LedgerHeaderHistoryEntry \<Rightarrow> LedgerHeaderHistoryEntry world" where
  "ex_world l =
     \<lparr>lm = l, closeLedgerCalls = [], mApplyLedgerSuccess = 0, mApplyLedgerFailure = 0,
      catchupStatusUpdates = 0\<rparr>"

text \<open>The work as constructed for a range, and a work with checkpoint 127 open.\<close>

definition ex_new :: "uint32 \<Rightarrow> uint32 \<Rightarrow> work" where
  "ex_new n m =
     \<lparr>mRange = \<lparr>mFirst = n, mLast = m\<rparr>, mLastApplied = ex_entry 0 0 0 0, mCurrSeq = 0,
      mHdrIn = Closed, mTxIn = Closed, mTxHistoryEntry = TransactionHistoryEntry_init,
      mFilesOpen = False\<rparr>"

definition ex_open ::
  "uint32 \<Rightarrow> uint32 \<Rightarrow> LedgerHeaderHistoryEntry \<Rightarrow> (exn + LedgerHeaderHistoryEntry) list \<Rightarrow>
   TransactionHistoryEntry \<Rightarrow> (exn + TransactionHistoryEntry) list \<Rightarrow> work" where
  "ex_open n m l hs e ts =
     \<lparr>mRange = \<lparr>mFirst = n, mLast = m\<rparr>, mLastApplied = l, mCurrSeq = 127,
      mHdrIn = Opened hs, mTxIn = Opened ts, mTxHistoryEntry = e, mFilesOpen = True\<rparr>"

lemmas ex_defs =
  ex_entry_def ex_txs_def ex_app_def ex_world_def ex_new_def ex_open_def
  TransactionHistoryEntry_init_def

lemmas replay_defs =
  onRun_def onRun_try_def applyHistoryOfSingleLedger_def applyValidatedLedger_def
  getCurrentTxSet_def getLastClosedLedgerNum_def openCurrentInputFiles_def onReset_def
  markFailure_def markSuccess_def filesReady_def Let_def

section \<open>Continuity classification\<close>

text \<open>
  C1: for every header record read by \<^verbatim>\<open>applyHistoryOfSingleLedger\<close> and every current LCL
  header, the outcome is the one of the continuity table, whose rows are tested in their
  order: too old and the two knit-ups return \<open>true\<close> and leave the world and the
  transaction side of the work untouched, a fatal row throws its \<^verbatim>\<open>runtime_error\<close>, and
  no row but the last calls the sink. In the last row the ledger is applied: the
  transaction set is resolved; when its hash is not the header's the failure meter is
  marked and \<^verbatim>\<open>runtime_error\<close> thrown with the sink still uncalled; otherwise
  \<^verbatim>\<open>closeLedger\<close> is called exactly once, with the header's sequence, the resolved set and
  the header's consensus value, and the result is the sink's exception, the post-apply
  hash mismatch, or \<open>true\<close> with the success meter marked and \<open>mLastApplied\<close> set.
\<close>

theorem applyHistoryOfSingleLedger_follows_continuity_table:
  assumes "good (mHdrIn w)" and "readOne (mHdrIn w) = (Inr (Some h), s)"
  shows "applyHistoryOfSingleLedger app a w =
     (case continuity_table h (getLastClosedLedgerHeader app (lm a)) of
        TooOld \<Rightarrow> (Inr True, a, w\<lparr>mHdrIn := s\<rparr>)
      | KnitsUp \<Rightarrow> (Inr True, a, w\<lparr>mHdrIn := s\<rparr>)
      | Fatal e \<Rightarrow>
          (Inl (runtime_error e),
           (if e = FailedToConnectOnLCLPredecessor then a else markFailure a),
           w\<lparr>mHdrIn := s\<rparr>)
      | ValidNext \<Rightarrow> applyValidatedLedger app a (w\<lparr>mHdrIn := s\<rparr>) h) \<and>
     (continuity_table h (getLastClosedLedgerHeader app (lm a)) \<noteq> ValidNext \<longrightarrow>
        closeLedgerCalls (fst (snd (applyHistoryOfSingleLedger app a w))) = closeLedgerCalls a \<and>
        lm (fst (snd (applyHistoryOfSingleLedger app a w))) = lm a) \<and>
     (continuity_table h (getLastClosedLedgerHeader app (lm a)) = ValidNext \<longrightarrow>
        (\<forall>x w2. getCurrentTxSet app a (w\<lparr>mHdrIn := s\<rparr>) = (Inl x, w2) \<longrightarrow>
           applyHistoryOfSingleLedger app a w = (Inl x, a, w2)) \<and>
        (\<forall>txset w2. getCurrentTxSet app a (w\<lparr>mHdrIn := s\<rparr>) = (Inr txset, w2) \<longrightarrow>
           (txSetHash (scpValue (header h)) \<noteq> getContentsHash app txset \<longrightarrow>
              applyHistoryOfSingleLedger app a w =
                (Inl (runtime_error TxSetHashDiffers), markFailure a, w2)) \<and>
           (txSetHash (scpValue (header h)) = getContentsHash app txset \<longrightarrow>
              (\<forall>thrown l'.
                 closeLedger app
                   \<lparr>lcd_ledgerSeq = ledgerSeq (header h), lcd_txSet = txset,
                    lcd_value = scpValue (header h)\<rparr> (lm a) = (thrown, l') \<longrightarrow>
                 closeLedgerCalls (fst (snd (applyHistoryOfSingleLedger app a w))) =
                   closeLedgerCalls a @
                     [\<lparr>lcd_ledgerSeq = ledgerSeq (header h), lcd_txSet = txset,
                       lcd_value = scpValue (header h)\<rparr>] \<and>
                 lm (fst (snd (applyHistoryOfSingleLedger app a w))) = l' \<and>
                 applyHistoryOfSingleLedger app a w =
                   (case thrown of
                      Some x \<Rightarrow>
                        (Inl x,
                         a\<lparr>lm := l',
                           closeLedgerCalls := closeLedgerCalls a @
                             [\<lparr>lcd_ledgerSeq = ledgerSeq (header h), lcd_txSet = txset,
                               lcd_value = scpValue (header h)\<rparr>]\<rparr>,
                         w2)
                    | None \<Rightarrow>
                        if hash (getLastClosedLedgerHeader app l') \<noteq> hash h
                        then (Inl (runtime_error ProducedMismatchedLedgerHash),
                              markFailure
                                (a\<lparr>lm := l',
                                   closeLedgerCalls := closeLedgerCalls a @
                                     [\<lparr>lcd_ledgerSeq = ledgerSeq (header h), lcd_txSet = txset,
                                       lcd_value = scpValue (header h)\<rparr>]\<rparr>),
                              w2)
                        else (Inr True,
                              markSuccess
                                (a\<lparr>lm := l',
                                   closeLedgerCalls := closeLedgerCalls a @
                                     [\<lparr>lcd_ledgerSeq = ledgerSeq (header h), lcd_txSet = txset,
                                       lcd_value = scpValue (header h)\<rparr>]\<rparr>),
                              w2\<lparr>mLastApplied := h\<rparr>))))))"
proof -
  let ?v = "continuity_table h (getLastClosedLedgerHeader app (lm a))"
  have table: "applyHistoryOfSingleLedger app a w =
     (case ?v of
        TooOld \<Rightarrow> (Inr True, a, w\<lparr>mHdrIn := s\<rparr>)
      | KnitsUp \<Rightarrow> (Inr True, a, w\<lparr>mHdrIn := s\<rparr>)
      | Fatal e \<Rightarrow>
          (Inl (runtime_error e),
           (if e = FailedToConnectOnLCLPredecessor then a else markFailure a),
           w\<lparr>mHdrIn := s\<rparr>)
      | ValidNext \<Rightarrow> applyValidatedLedger app a (w\<lparr>mHdrIn := s\<rparr>) h)"
    using assms
    by (simp add: applyHistoryOfSingleLedger_def continuity_table_def Let_def)
  have others: "closeLedgerCalls (fst (snd (applyHistoryOfSingleLedger app a w))) = closeLedgerCalls a \<and>
        lm (fst (snd (applyHistoryOfSingleLedger app a w))) = lm a"
    if "?v \<noteq> ValidNext"
    using that unfolding table by (cases ?v) (simp_all add: markFailure_def)
  have applied: "applyHistoryOfSingleLedger app a w = applyValidatedLedger app a (w\<lparr>mHdrIn := s\<rparr>) h"
    if "?v = ValidNext"
    using that table by simp
  have thrown: "applyValidatedLedger app a (w\<lparr>mHdrIn := s\<rparr>) h = (Inl x, a, w2)"
    if "getCurrentTxSet app a (w\<lparr>mHdrIn := s\<rparr>) = (Inl x, w2)" for x w2
    using that by (simp add: applyValidatedLedger_def)
  have differs: "applyValidatedLedger app a (w\<lparr>mHdrIn := s\<rparr>) h =
        (Inl (runtime_error TxSetHashDiffers), markFailure a, w2)"
    if "getCurrentTxSet app a (w\<lparr>mHdrIn := s\<rparr>) = (Inr txset, w2)"
      and "txSetHash (scpValue (header h)) \<noteq> getContentsHash app txset" for txset w2
    using that by (simp add: applyValidatedLedger_def)
  have closes: "applyValidatedLedger app a (w\<lparr>mHdrIn := s\<rparr>) h =
      (case thrown of
         Some x \<Rightarrow>
           (Inl x,
            a\<lparr>lm := l',
              closeLedgerCalls := closeLedgerCalls a @
                [\<lparr>lcd_ledgerSeq = ledgerSeq (header h), lcd_txSet = txset,
                  lcd_value = scpValue (header h)\<rparr>]\<rparr>,
            w2)
       | None \<Rightarrow>
           if hash (getLastClosedLedgerHeader app l') \<noteq> hash h
           then (Inl (runtime_error ProducedMismatchedLedgerHash),
                 markFailure
                   (a\<lparr>lm := l',
                      closeLedgerCalls := closeLedgerCalls a @
                        [\<lparr>lcd_ledgerSeq = ledgerSeq (header h), lcd_txSet = txset,
                          lcd_value = scpValue (header h)\<rparr>]\<rparr>),
                 w2)
           else (Inr True,
                 markSuccess
                   (a\<lparr>lm := l',
                      closeLedgerCalls := closeLedgerCalls a @
                        [\<lparr>lcd_ledgerSeq = ledgerSeq (header h), lcd_txSet = txset,
                          lcd_value = scpValue (header h)\<rparr>]\<rparr>),
                 w2\<lparr>mLastApplied := h\<rparr>))"
    if "getCurrentTxSet app a (w\<lparr>mHdrIn := s\<rparr>) = (Inr txset, w2)"
      and "txSetHash (scpValue (header h)) = getContentsHash app txset"
      and "closeLedger app
             \<lparr>lcd_ledgerSeq = ledgerSeq (header h), lcd_txSet = txset,
              lcd_value = scpValue (header h)\<rparr> (lm a) = (thrown, l')"
    for txset w2 thrown l'
    using that by (simp add: applyValidatedLedger_def Let_def)
  have calls: "closeLedgerCalls (fst (snd (applyValidatedLedger app a (w\<lparr>mHdrIn := s\<rparr>) h))) =
        closeLedgerCalls a @
          [\<lparr>lcd_ledgerSeq = ledgerSeq (header h), lcd_txSet = txset,
            lcd_value = scpValue (header h)\<rparr>] \<and>
      lm (fst (snd (applyValidatedLedger app a (w\<lparr>mHdrIn := s\<rparr>) h))) = l'"
    if "getCurrentTxSet app a (w\<lparr>mHdrIn := s\<rparr>) = (Inr txset, w2)"
      and "txSetHash (scpValue (header h)) = getContentsHash app txset"
      and "closeLedger app
             \<lparr>lcd_ledgerSeq = ledgerSeq (header h), lcd_txSet = txset,
              lcd_value = scpValue (header h)\<rparr> (lm a) = (thrown, l')"
    for txset w2 thrown l'
    unfolding closes [OF that]
    by (cases thrown) (simp_all add: markFailure_def markSuccess_def)
  have valid: "(\<forall>x w2. getCurrentTxSet app a (w\<lparr>mHdrIn := s\<rparr>) = (Inl x, w2) \<longrightarrow>
           applyHistoryOfSingleLedger app a w = (Inl x, a, w2)) \<and>
        (\<forall>txset w2. getCurrentTxSet app a (w\<lparr>mHdrIn := s\<rparr>) = (Inr txset, w2) \<longrightarrow>
           (txSetHash (scpValue (header h)) \<noteq> getContentsHash app txset \<longrightarrow>
              applyHistoryOfSingleLedger app a w =
                (Inl (runtime_error TxSetHashDiffers), markFailure a, w2)) \<and>
           (txSetHash (scpValue (header h)) = getContentsHash app txset \<longrightarrow>
              (\<forall>thrown l'.
                 closeLedger app
                   \<lparr>lcd_ledgerSeq = ledgerSeq (header h), lcd_txSet = txset,
                    lcd_value = scpValue (header h)\<rparr> (lm a) = (thrown, l') \<longrightarrow>
                 closeLedgerCalls (fst (snd (applyHistoryOfSingleLedger app a w))) =
                   closeLedgerCalls a @
                     [\<lparr>lcd_ledgerSeq = ledgerSeq (header h), lcd_txSet = txset,
                       lcd_value = scpValue (header h)\<rparr>] \<and>
                 lm (fst (snd (applyHistoryOfSingleLedger app a w))) = l' \<and>
                 applyHistoryOfSingleLedger app a w =
                   (case thrown of
                      Some x \<Rightarrow>
                        (Inl x,
                         a\<lparr>lm := l',
                           closeLedgerCalls := closeLedgerCalls a @
                             [\<lparr>lcd_ledgerSeq = ledgerSeq (header h), lcd_txSet = txset,
                               lcd_value = scpValue (header h)\<rparr>]\<rparr>,
                         w2)
                    | None \<Rightarrow>
                        if hash (getLastClosedLedgerHeader app l') \<noteq> hash h
                        then (Inl (runtime_error ProducedMismatchedLedgerHash),
                              markFailure
                                (a\<lparr>lm := l',
                                   closeLedgerCalls := closeLedgerCalls a @
                                     [\<lparr>lcd_ledgerSeq = ledgerSeq (header h), lcd_txSet = txset,
                                       lcd_value = scpValue (header h)\<rparr>]\<rparr>),
                              w2)
                        else (Inr True,
                              markSuccess
                                (a\<lparr>lm := l',
                                   closeLedgerCalls := closeLedgerCalls a @
                                     [\<lparr>lcd_ledgerSeq = ledgerSeq (header h), lcd_txSet = txset,
                                       lcd_value = scpValue (header h)\<rparr>]\<rparr>),
                              w2\<lparr>mLastApplied := h\<rparr>)))))"
    if v: "?v = ValidNext"
    unfolding applied [OF v]
    using thrown differs closes calls by blast
  from table others valid show ?thesis by blast
qed

theorem applyHistoryOfSingleLedger_follows_continuity_table_witness:
  "good (mHdrIn (ex_open 64 200 (ex_entry 63 500 499 0) [Inr (ex_entry 70 1 2 0)] TransactionHistoryEntry_init [])) \<and>
   readOne (mHdrIn (ex_open 64 200 (ex_entry 63 500 499 0) [Inr (ex_entry 70 1 2 0)] TransactionHistoryEntry_init []))
     = (Inr (Some (ex_entry 70 1 2 0)), Opened []) \<and>
   applyHistoryOfSingleLedger (ex_app None [] []) (ex_world (ex_entry 63 500 499 0))
         (ex_open 64 200 (ex_entry 63 500 499 0) [Inr (ex_entry 70 1 2 0)] TransactionHistoryEntry_init [])
     = (Inl (runtime_error ReplayOvershot), markFailure (ex_world (ex_entry 63 500 499 0)),
        ex_open 64 200 (ex_entry 63 500 499 0) [] TransactionHistoryEntry_init []) \<and>
   continuity_table (ex_entry 64 501 500 500)
     (getLastClosedLedgerHeader (ex_app None [] []) (lm (ex_world (ex_entry 63 500 499 0)))) = ValidNext \<and>
   applyHistoryOfSingleLedger (ex_app None [] []) (ex_world (ex_entry 63 500 499 0))
         (ex_open 64 200 (ex_entry 63 500 499 0) [Inr (ex_entry 64 501 500 500)] TransactionHistoryEntry_init [])
     = (Inr True,
        \<lparr>lm = ex_entry 64 501 500 500,
          closeLedgerCalls = [\<lparr>lcd_ledgerSeq = 64, lcd_txSet = TxSetFrame_previous 500,
                               lcd_value = \<lparr>txSetHash = 500, closeTime = 0\<rparr>\<rparr>],
          mApplyLedgerSuccess = 1, mApplyLedgerFailure = 0, catchupStatusUpdates = 0\<rparr>,
        ex_open 64 200 (ex_entry 64 501 500 500) [] TransactionHistoryEntry_init [])"
proof -
  let ?app = "ex_app None [] []"
  let ?a = "ex_world (ex_entry 63 500 499 0)"
  let ?w70 = "ex_open 64 200 (ex_entry 63 500 499 0) [Inr (ex_entry 70 1 2 0)] TransactionHistoryEntry_init []"
  let ?w64 = "ex_open 64 200 (ex_entry 63 500 499 0) [Inr (ex_entry 64 501 500 500)] TransactionHistoryEntry_init []"
  let ?w2 = "ex_open 64 200 (ex_entry 63 500 499 0) [] TransactionHistoryEntry_init []"
  let ?cd = "\<lparr>lcd_ledgerSeq = 64, lcd_txSet = TxSetFrame_previous 500,
              lcd_value = \<lparr>txSetHash = 500, closeTime = 0\<rparr>\<rparr>"
  have g70: "good (mHdrIn ?w70)" and r70: "readOne (mHdrIn ?w70) = (Inr (Some (ex_entry 70 1 2 0)), Opened [])"
    by (simp_all add: ex_defs)
  have g64: "good (mHdrIn ?w64)" and r64: "readOne (mHdrIn ?w64) = (Inr (Some (ex_entry 64 501 500 500)), Opened [])"
    by (simp_all add: ex_defs)
  have over: "continuity_table (ex_entry 70 1 2 0) (getLastClosedLedgerHeader ?app (lm ?a)) = Fatal ReplayOvershot"
    by (simp add: ex_defs continuity_table_def)
  have valid: "continuity_table (ex_entry 64 501 500 500) (getLastClosedLedgerHeader ?app (lm ?a)) = ValidNext"
    by (simp add: ex_defs continuity_table_def)
  have w64: "?w64\<lparr>mHdrIn := Opened []\<rparr> = ?w2" and w70: "?w70\<lparr>mHdrIn := Opened []\<rparr> = ?w2"
    by (simp_all add: ex_defs)
  have txs: "getCurrentTxSet ?app ?a (?w64\<lparr>mHdrIn := Opened []\<rparr>) =
      (Inr (TxSetFrame_previous 500), ?w2)"
    by (simp add: ex_defs getCurrentTxSet_def getLastClosedLedgerNum_def
          getCurrentTxSet_loop.simps Let_def)
  have same: "txSetHash (scpValue (header (ex_entry 64 501 500 500))) =
      getContentsHash ?app (TxSetFrame_previous 500)"
    by (simp add: ex_defs)
  have close: "closeLedger ?app
      \<lparr>lcd_ledgerSeq = ledgerSeq (header (ex_entry 64 501 500 500)),
       lcd_txSet = TxSetFrame_previous 500,
       lcd_value = scpValue (header (ex_entry 64 501 500 500))\<rparr> (lm ?a) =
      (None, ex_entry 64 501 500 500)"
    by (simp add: ex_defs)
  note table70 = applyHistoryOfSingleLedger_follows_continuity_table [OF g70 r70, of ?app ?a]
  note table64 = applyHistoryOfSingleLedger_follows_continuity_table [OF g64 r64, of ?app ?a]
  from table70 have first: "applyHistoryOfSingleLedger ?app ?a ?w70 =
      (Inl (runtime_error ReplayOvershot), markFailure ?a, ?w2)"
    unfolding over w70 by simp
  note applied = table64 [THEN conjunct2, THEN conjunct2, rule_format, OF valid,
      THEN conjunct2, rule_format, OF txs, THEN conjunct2, rule_format, OF same close,
      THEN conjunct2, THEN conjunct2]
  from applied have second: "applyHistoryOfSingleLedger ?app ?a ?w64 =
      (Inr True,
       \<lparr>lm = ex_entry 64 501 500 500, closeLedgerCalls = [?cd],
        mApplyLedgerSuccess = 1, mApplyLedgerFailure = 0, catchupStatusUpdates = 0\<rparr>,
       ex_open 64 200 (ex_entry 64 501 500 500) [] TransactionHistoryEntry_init [])"
    by (simp add: ex_defs markSuccess_def)
  from g70 r70 first valid second show ?thesis
    by simp
qed

section \<open>The transaction-set resolver\<close>

lemma getCurrentTxSet_loop_exit:
  "getCurrentTxSet_loop nid seq e s = (r, e', s') \<Longrightarrow>
     (\<forall>t. r = Inr (Some t) \<longrightarrow> txh_ledgerSeq e' = seq \<and> t = TxSetFrame_xdr nid (txSet e')) \<and>
     (r = Inr None \<longrightarrow>
        seq < txh_ledgerSeq e' \<or> (txh_ledgerSeq e' < seq \<and> pending s' = 0))"
proof (induction nid seq e s rule: getCurrentTxSet_loop.induct)
  case (1 nid seq e s)
  show ?case
  proof (cases "txh_ledgerSeq e < seq")
    case behind: True
    show ?thesis
    proof (cases "good s")
      case True
      obtain x s1 where rd: "readOne s = (x, s1)" by (cases "readOne s")
      show ?thesis
      proof (cases x)
        case (Inl ex)
        with behind True rd "1.prems" show ?thesis
          by (auto simp add: getCurrentTxSet_loop.simps [of nid seq e s])
      next
        case (Inr o1)
        show ?thesis
        proof (cases o1)
          case None
          have "pending s1 = 0"
            using rd Inr None by (cases s rule: readOne.cases) auto
          with behind True rd Inr None "1.prems" show ?thesis
            by (auto simp add: getCurrentTxSet_loop.simps [of nid seq e s])
        next
          case (Some e1)
          have "getCurrentTxSet_loop nid seq e1 s1 = (r, e', s')"
            using behind True rd Inr Some "1.prems"
            by (simp add: getCurrentTxSet_loop.simps [of nid seq e s])
          then show ?thesis
            using "1.IH" [OF behind True rd [symmetric] Inr Some] by simp
        qed
      qed
    next
      case False
      then have "pending s = 0" by (cases s) auto
      with behind False "1.prems" show ?thesis
        by (auto simp add: getCurrentTxSet_loop.simps [of nid seq e s])
    qed
  next
    case False
    with "1.prems" show ?thesis
      by (auto simp add: getCurrentTxSet_loop.simps [of nid seq e s] split: if_splits)
  qed
qed

text \<open>
  C6: whenever \<^verbatim>\<open>getCurrentTxSet\<close> returns without a record for the target sequence
  (the look-ahead entry is beyond the target, or it is behind the target and the
  transaction stream has nothing left), the set returned is the empty frame built on the
  hash of the current LCL, so the hash \<^verbatim>\<open>getContentsHash\<close> computes for it, by the same
  function as for an archived set, depends on the LCL hash alone. Otherwise the set is the
  archived one of the look-ahead entry, whose sequence is the target.
\<close>

theorem getCurrentTxSet_empty_set_on_LCL_hash:
  assumes "getCurrentTxSet app a w = (Inr ts, w')"
  shows "(txh_ledgerSeq (mTxHistoryEntry w') = getLastClosedLedgerNum app (lm a) + 1 \<and>
          ts = TxSetFrame_xdr (getNetworkID app) (txSet (mTxHistoryEntry w'))) \<or>
         ((getLastClosedLedgerNum app (lm a) + 1 < txh_ledgerSeq (mTxHistoryEntry w') \<or>
           (txh_ledgerSeq (mTxHistoryEntry w') < getLastClosedLedgerNum app (lm a) + 1 \<and>
            pending (mTxIn w') = 0)) \<and>
          ts = TxSetFrame_previous (hash (getLastClosedLedgerHeader app (lm a))) \<and>
          getContentsHash app ts =
            getContentsHash app (TxSetFrame_previous (hash (getLastClosedLedgerHeader app (lm a)))))"
proof -
  obtain r e s where loop:
    "getCurrentTxSet_loop (getNetworkID app) (getLastClosedLedgerNum app (lm a) + 1)
       (mTxHistoryEntry w) (mTxIn w) = (r, e, s)"
    by (metis prod_cases3)
  from assms loop have w': "w' = w\<lparr>mTxHistoryEntry := e, mTxIn := s\<rparr>"
    by (auto simp: getCurrentTxSet_def Let_def split: sum.splits option.splits)
  from assms loop have r: "r = Inr (Some ts) \<or>
      (r = Inr None \<and> ts = TxSetFrame_previous (hash (getLastClosedLedgerHeader app (lm a))))"
    by (auto simp: getCurrentTxSet_def Let_def split: sum.splits option.splits)
  from getCurrentTxSet_loop_exit [OF loop] r w' show ?thesis
    by auto
qed

theorem getCurrentTxSet_empty_set_on_LCL_hash_witness:
  "getCurrentTxSet (ex_app None [] []) (ex_world (ex_entry 100 500 499 0))
     (ex_open 64 200 (ex_entry 100 500 499 0) [] (ex_txs 103 502 [''tx'']) [])
   = (Inr (TxSetFrame_previous 500),
      ex_open 64 200 (ex_entry 100 500 499 0) [] (ex_txs 103 502 [''tx'']) []) \<and>
   getContentsHash (ex_app None [] []) (TxSetFrame_previous 500) = 500"
  using getCurrentTxSet_empty_set_on_LCL_hash
      [of "ex_app None [] []" "ex_world (ex_entry 100 500 499 0)"
      "ex_open 64 200 (ex_entry 100 500 499 0) [] (ex_txs 103 502 [''tx'']) []"
      "TxSetFrame_previous 500"
      "ex_open 64 200 (ex_entry 100 500 499 0) [] (ex_txs 103 502 [''tx'']) []"]
  by (simp add: ex_defs replay_defs getCurrentTxSet_loop.simps)

section \<open>The caller's last-applied header\<close>

text \<open>
  C10: \<open>mLastApplied\<close> changes only after a fully verified application. Whatever
  \<^verbatim>\<open>applyHistoryOfSingleLedger\<close> does short of returning \<open>true\<close> after a sink call (end of
  stream, a skip, a knit-up, any exception, the transaction-set and the post-apply hash
  mismatch among them) leaves it as it was; it becomes the header read exactly when the
  sink was called, returned, and its LCL hash is the hash of that header.
\<close>

theorem mLastApplied_only_after_verified_apply:
  assumes "applyHistoryOfSingleLedger app a w = (r, a', w')"
  shows "(r \<noteq> Inr True \<longrightarrow> mLastApplied w' = mLastApplied w) \<and>
         (closeLedgerCalls a' = closeLedgerCalls a \<longrightarrow> mLastApplied w' = mLastApplied w) \<and>
         (r = Inr True \<and> closeLedgerCalls a' \<noteq> closeLedgerCalls a \<longrightarrow>
            (\<exists>h s. readOne (mHdrIn w) = (Inr (Some h), s) \<and> mLastApplied w' = h \<and>
                   hash (getLastClosedLedgerHeader app (lm a')) = hash h)) \<and>
         (\<forall>h s cd. good (mHdrIn w) \<and> readOne (mHdrIn w) = (Inr (Some h), s) \<and>
            closeLedgerCalls a' = closeLedgerCalls a @ [cd] \<and>
            closeLedger app cd (lm a) = (None, lm a') \<and>
            hash (getLastClosedLedgerHeader app (lm a')) = hash h \<longrightarrow>
            r = Inr True \<and> mLastApplied w' = h)"
  using assms
  by (auto simp: applyHistoryOfSingleLedger_def applyValidatedLedger_def getCurrentTxSet_def
        markFailure_def markSuccess_def Let_def
      split: if_splits sum.splits option.splits prod.splits)

theorem mLastApplied_only_after_verified_apply_witness:
  "fst (applyHistoryOfSingleLedger (ex_app None [] []) (ex_world (ex_entry 63 500 499 0))
         (ex_open 64 200 (ex_entry 63 500 499 0) [Inr (ex_entry 64 501 500 500)] TransactionHistoryEntry_init []))
     = Inr True \<and>
   mLastApplied (snd (snd (applyHistoryOfSingleLedger (ex_app None [] []) (ex_world (ex_entry 63 500 499 0))
         (ex_open 64 200 (ex_entry 63 500 499 0) [Inr (ex_entry 64 501 500 500)] TransactionHistoryEntry_init []))))
     = ex_entry 64 501 500 500 \<and>
   fst (applyHistoryOfSingleLedger (ex_app None [] []) (ex_world (ex_entry 63 500 499 0))
         (ex_open 64 200 (ex_entry 63 500 499 0) [Inr (ex_entry 64 501 500 77)] TransactionHistoryEntry_init []))
     = Inl (runtime_error TxSetHashDiffers) \<and>
   mLastApplied (snd (snd (applyHistoryOfSingleLedger (ex_app None [] []) (ex_world (ex_entry 63 500 499 0))
         (ex_open 64 200 (ex_entry 63 500 499 0) [Inr (ex_entry 64 501 500 77)] TransactionHistoryEntry_init []))))
     = ex_entry 63 500 499 0"
  using
    mLastApplied_only_after_verified_apply
      [of "ex_app None [] []" "ex_world (ex_entry 63 500 499 0)"
      "ex_open 64 200 (ex_entry 63 500 499 0) [Inr (ex_entry 64 501 500 500)] TransactionHistoryEntry_init []"
      "Inr True"
      "\<lparr>lm = ex_entry 64 501 500 500,
        closeLedgerCalls = [\<lparr>lcd_ledgerSeq = 64, lcd_txSet = TxSetFrame_previous 500,
                             lcd_value = \<lparr>txSetHash = 500, closeTime = 0\<rparr>\<rparr>],
        mApplyLedgerSuccess = 1, mApplyLedgerFailure = 0, catchupStatusUpdates = 0\<rparr>"
      "ex_open 64 200 (ex_entry 64 501 500 500) [] TransactionHistoryEntry_init []"]
    mLastApplied_only_after_verified_apply
      [of "ex_app None [] []" "ex_world (ex_entry 63 500 499 0)"
      "ex_open 64 200 (ex_entry 63 500 499 0) [Inr (ex_entry 64 501 500 77)] TransactionHistoryEntry_init []"
      "Inl (runtime_error TxSetHashDiffers)"
      "markFailure (ex_world (ex_entry 63 500 499 0))"
      "ex_open 64 200 (ex_entry 63 500 499 0) [] TransactionHistoryEntry_init []"]
  by (simp add: ex_defs replay_defs getCurrentTxSet_loop.simps)

section \<open>The step boundary\<close>

text \<open>
  C7: an exception raised inside the \<^verbatim>\<open>try\<close> block of \<^verbatim>\<open>onRun\<close> leaves \<^verbatim>\<open>onRun\<close> only when
  it is \<^verbatim>\<open>InvariantDoesNotHold\<close>. Every chain or logic error (a \<^verbatim>\<open>runtime_error\<close> of the
  replay), every \<^verbatim>\<open>FileSystemException\<close> and every other exception becomes the result
  \<^verbatim>\<open>WORK_FAILURE\<close>, with the state the exception left behind.
\<close>

theorem onRun_converts_all_but_invariant_violations:
  "(\<forall>x a' w'. onRun_try app a w = (Inl x, a', w') \<longrightarrow>
      onRun app a w =
        ((if x = InvariantDoesNotHold then Inl InvariantDoesNotHold else Inr WORK_FAILURE), a', w')) \<and>
   (\<forall>e a' w'. onRun_try app a w = (Inl (runtime_error e), a', w') \<longrightarrow>
      onRun app a w = (Inr WORK_FAILURE, a', w')) \<and>
   (\<forall>a' w'. onRun_try app a w = (Inl FileSystemException, a', w') \<longrightarrow>
      onRun app a w = (Inr WORK_FAILURE, a', w')) \<and>
   (\<forall>x. fst (onRun app a w) = Inl x \<longrightarrow>
      x = InvariantDoesNotHold \<and> fst (onRun_try app a w) = Inl InvariantDoesNotHold)"
proof -
  have catch: "onRun_catch x =
      (if x = InvariantDoesNotHold then Inl InvariantDoesNotHold else Inr WORK_FAILURE)" for x
    by (cases x) simp_all
  show ?thesis
    by (auto simp: onRun_def catch split: prod.splits sum.splits if_splits)
qed

theorem onRun_converts_all_but_invariant_violations_witness:
  "onRun (ex_app None [] []) (ex_world (ex_entry 63 500 499 0))
     (ex_open 64 200 (ex_entry 63 500 499 0) [Inr (ex_entry 70 1 2 0)] TransactionHistoryEntry_init [])
   = (Inr WORK_FAILURE, markFailure (ex_world (ex_entry 63 500 499 0)),
      ex_open 64 200 (ex_entry 63 500 499 0) [] TransactionHistoryEntry_init []) \<and>
   fst (onRun_try (ex_app None [] []) (ex_world (ex_entry 63 500 499 0)) (ex_new 64 200))
     = Inl FileSystemException \<and>
   fst (onRun (ex_app None [] []) (ex_world (ex_entry 63 500 499 0)) (ex_new 64 200))
     = Inr WORK_FAILURE \<and>
   fst (onRun (ex_app (Some InvariantDoesNotHold) [] []) (ex_world (ex_entry 63 500 499 0))
     (ex_open 64 200 (ex_entry 63 500 499 0) [Inr (ex_entry 64 501 500 500)] TransactionHistoryEntry_init []))
   = Inl InvariantDoesNotHold"
  using
    onRun_converts_all_but_invariant_violations
      [of "ex_app None [] []" "ex_world (ex_entry 63 500 499 0)"
      "ex_open 64 200 (ex_entry 63 500 499 0) [Inr (ex_entry 70 1 2 0)] TransactionHistoryEntry_init []"]
    onRun_converts_all_but_invariant_violations
      [of "ex_app None [] []" "ex_world (ex_entry 63 500 499 0)" "ex_new 64 200"]
    onRun_converts_all_but_invariant_violations
      [of "ex_app (Some InvariantDoesNotHold) [] []" "ex_world (ex_entry 63 500 499 0)"
      "ex_open 64 200 (ex_entry 63 500 499 0) [Inr (ex_entry 64 501 500 500)] TransactionHistoryEntry_init []"]
  by (simp add: ex_defs replay_defs getCurrentTxSet_loop.simps)

section \<open>Compare before read\<close>

lemma getCurrentTxSet_beyond:
  assumes "getLastClosedLedgerNum app (lm a) + 1 < txh_ledgerSeq (mTxHistoryEntry w)"
  shows "getCurrentTxSet app a w =
     (Inr (TxSetFrame_previous (hash (getLastClosedLedgerHeader app (lm a)))), w)"
proof -
  have "\<not> txh_ledgerSeq (mTxHistoryEntry w) < getLastClosedLedgerNum app (lm a) + 1"
    using assms by (simp add: not_less less_imp_le)
  with assms show ?thesis
    by (simp add: getCurrentTxSet_def Let_def
          getCurrentTxSet_loop.simps [of _ _ "mTxHistoryEntry w" "mTxIn w"])
qed

lemma getCurrentTxSet_equal:
  "txh_ledgerSeq (mTxHistoryEntry w) = getLastClosedLedgerNum app (lm a) + 1 \<Longrightarrow>
   getCurrentTxSet app a w =
     (Inr (TxSetFrame_xdr (getNetworkID app) (txSet (mTxHistoryEntry w))), w)"
  by (simp add: getCurrentTxSet_def Let_def
        getCurrentTxSet_loop.simps [of _ _ "mTxHistoryEntry w" "mTxIn w"])

lemma getCurrentTxSet_behind_read:
  assumes "txh_ledgerSeq (mTxHistoryEntry w) < getLastClosedLedgerNum app (lm a) + 1"
      and "good (mTxIn w)"
      and "readOne (mTxIn w) = (Inr (Some e'), s)"
  shows "getCurrentTxSet app a w = getCurrentTxSet app a (w\<lparr>mTxHistoryEntry := e', mTxIn := s\<rparr>)"
  using assms
  by (simp add: getCurrentTxSet_def Let_def
        getCurrentTxSet_loop.simps [of _ _ "mTxHistoryEntry w" "mTxIn w"])

lemma getCurrentTxSet_behind_end:
  assumes "txh_ledgerSeq (mTxHistoryEntry w) < getLastClosedLedgerNum app (lm a) + 1"
      and "\<not> good (mTxIn w) \<or> readOne (mTxIn w) = (Inr None, s)"
  shows "getCurrentTxSet app a w =
     (Inr (TxSetFrame_previous (hash (getLastClosedLedgerHeader app (lm a)))),
      if good (mTxIn w) then w\<lparr>mTxIn := s\<rparr> else w)"
  using assms
  by (auto simp add: getCurrentTxSet_def Let_def
        getCurrentTxSet_loop.simps [of _ _ "mTxHistoryEntry w" "mTxIn w"])

text \<open>
  C2: \<^verbatim>\<open>getCurrentTxSet\<close> compares the look-ahead entry with the target (the LCL sequence
  plus one) before it reads. An entry beyond the target gives the empty set and leaves
  entry and stream as they are; an entry at the target gives its transactions and reads
  nothing; an entry behind the target is replaced by the next record and the comparison is
  made again, or gives the empty set when the stream has no record left. With records for
  100 and 103 only, resolving 101 reads the record for 103 and returns the empty set,
  resolving 102 returns the empty set with that record still buffered, resolving 103
  returns its transactions without another read, and resolving 104 discards it.
\<close>

theorem getCurrentTxSet_compares_before_reading:
  "(getLastClosedLedgerNum app (lm a) + 1 < txh_ledgerSeq (mTxHistoryEntry w) \<longrightarrow>
      getCurrentTxSet app a w =
        (Inr (TxSetFrame_previous (hash (getLastClosedLedgerHeader app (lm a)))), w)) \<and>
   (txh_ledgerSeq (mTxHistoryEntry w) = getLastClosedLedgerNum app (lm a) + 1 \<longrightarrow>
      getCurrentTxSet app a w =
        (Inr (TxSetFrame_xdr (getNetworkID app) (txSet (mTxHistoryEntry w))), w)) \<and>
   (txh_ledgerSeq (mTxHistoryEntry w) < getLastClosedLedgerNum app (lm a) + 1 \<longrightarrow>
      (\<forall>e' s. good (mTxIn w) \<and> readOne (mTxIn w) = (Inr (Some e'), s) \<longrightarrow>
         getCurrentTxSet app a w =
           getCurrentTxSet app a (w\<lparr>mTxHistoryEntry := e', mTxIn := s\<rparr>)) \<and>
      (\<forall>s. \<not> good (mTxIn w) \<or> readOne (mTxIn w) = (Inr None, s) \<longrightarrow>
         getCurrentTxSet app a w =
           (Inr (TxSetFrame_previous (hash (getLastClosedLedgerHeader app (lm a)))),
            if good (mTxIn w) then w\<lparr>mTxIn := s\<rparr> else w))) \<and>
   (\<forall>e100 e103 a101 a102 a103 a104.
      txh_ledgerSeq e100 = 100 \<and> txh_ledgerSeq e103 = 103 \<and>
      mTxHistoryEntry w = e100 \<and> mTxIn w = Opened [Inr e103] \<and>
      getLastClosedLedgerNum app (lm a101) = 100 \<and>
      getLastClosedLedgerNum app (lm a102) = 101 \<and>
      getLastClosedLedgerNum app (lm a103) = 102 \<and>
      getLastClosedLedgerNum app (lm a104) = 103 \<longrightarrow>
      getCurrentTxSet app a101 w =
        (Inr (TxSetFrame_previous (hash (getLastClosedLedgerHeader app (lm a101)))),
         w\<lparr>mTxHistoryEntry := e103, mTxIn := Opened []\<rparr>) \<and>
      getCurrentTxSet app a102 (w\<lparr>mTxHistoryEntry := e103, mTxIn := Opened []\<rparr>) =
        (Inr (TxSetFrame_previous (hash (getLastClosedLedgerHeader app (lm a102)))),
         w\<lparr>mTxHistoryEntry := e103, mTxIn := Opened []\<rparr>) \<and>
      getCurrentTxSet app a103 (w\<lparr>mTxHistoryEntry := e103, mTxIn := Opened []\<rparr>) =
        (Inr (TxSetFrame_xdr (getNetworkID app) (txSet e103)),
         w\<lparr>mTxHistoryEntry := e103, mTxIn := Opened []\<rparr>) \<and>
      getCurrentTxSet app a104 (w\<lparr>mTxHistoryEntry := e103, mTxIn := Opened []\<rparr>) =
        (Inr (TxSetFrame_previous (hash (getLastClosedLedgerHeader app (lm a104)))),
         w\<lparr>mTxHistoryEntry := e103, mTxIn := Opened []\<rparr>))"
proof -
  have scenario:
    "getCurrentTxSet app a101 w =
        (Inr (TxSetFrame_previous (hash (getLastClosedLedgerHeader app (lm a101)))),
         w\<lparr>mTxHistoryEntry := e103, mTxIn := Opened []\<rparr>) \<and>
      getCurrentTxSet app a102 (w\<lparr>mTxHistoryEntry := e103, mTxIn := Opened []\<rparr>) =
        (Inr (TxSetFrame_previous (hash (getLastClosedLedgerHeader app (lm a102)))),
         w\<lparr>mTxHistoryEntry := e103, mTxIn := Opened []\<rparr>) \<and>
      getCurrentTxSet app a103 (w\<lparr>mTxHistoryEntry := e103, mTxIn := Opened []\<rparr>) =
        (Inr (TxSetFrame_xdr (getNetworkID app) (txSet e103)),
         w\<lparr>mTxHistoryEntry := e103, mTxIn := Opened []\<rparr>) \<and>
      getCurrentTxSet app a104 (w\<lparr>mTxHistoryEntry := e103, mTxIn := Opened []\<rparr>) =
        (Inr (TxSetFrame_previous (hash (getLastClosedLedgerHeader app (lm a104)))),
         w\<lparr>mTxHistoryEntry := e103, mTxIn := Opened []\<rparr>)"
    if h: "txh_ledgerSeq e100 = 100" "txh_ledgerSeq e103 = 103"
      "mTxHistoryEntry w = e100" "mTxIn w = Opened [Inr e103]"
      "getLastClosedLedgerNum app (lm a101) = 100"
      "getLastClosedLedgerNum app (lm a102) = 101"
      "getLastClosedLedgerNum app (lm a103) = 102"
      "getLastClosedLedgerNum app (lm a104) = 103"
    for e100 e103 :: TransactionHistoryEntry and a101 a102 a103 a104 :: "'a world"
  proof -
    let ?w1 = "w\<lparr>mTxHistoryEntry := e103, mTxIn := Opened []\<rparr>"
    have s1: "getCurrentTxSet app a101 w = getCurrentTxSet app a101 ?w1"
      using h by (intro getCurrentTxSet_behind_read) simp_all
    have s1': "getCurrentTxSet app a101 ?w1 =
        (Inr (TxSetFrame_previous (hash (getLastClosedLedgerHeader app (lm a101)))), ?w1)"
      using h by (intro getCurrentTxSet_beyond) simp
    have s2: "getCurrentTxSet app a102 ?w1 =
        (Inr (TxSetFrame_previous (hash (getLastClosedLedgerHeader app (lm a102)))), ?w1)"
      using h by (intro getCurrentTxSet_beyond) simp
    have s3: "getCurrentTxSet app a103 ?w1 =
        (Inr (TxSetFrame_xdr (getNetworkID app) (txSet (mTxHistoryEntry ?w1))), ?w1)"
      using h by (intro getCurrentTxSet_equal) simp
    have s4: "getCurrentTxSet app a104 ?w1 =
        (Inr (TxSetFrame_previous (hash (getLastClosedLedgerHeader app (lm a104)))),
         if good (mTxIn ?w1) then ?w1\<lparr>mTxIn := Opened []\<rparr> else ?w1)"
      using h by (intro getCurrentTxSet_behind_end) simp_all
    from s1 s1' s2 s3 s4 show ?thesis by simp
  qed
  show ?thesis
    using getCurrentTxSet_beyond [of app a w] getCurrentTxSet_equal [of w app a]
      getCurrentTxSet_behind_read [of w app a] getCurrentTxSet_behind_end [of w app a]
      scenario
    by blast
qed

theorem getCurrentTxSet_compares_before_reading_witness:
  "getCurrentTxSet (ex_app None [] []) (ex_world (ex_entry 100 500 499 0))
     (ex_open 64 200 (ex_entry 100 500 499 0) [] (ex_txs 100 499 [''a''])
        [Inr (ex_txs 103 502 [''b'', ''c''])])
   = (Inr (TxSetFrame_previous 500),
      ex_open 64 200 (ex_entry 100 500 499 0) [] (ex_txs 103 502 [''b'', ''c'']) []) \<and>
   getCurrentTxSet (ex_app None [] []) (ex_world (ex_entry 101 501 500 0))
     (ex_open 64 200 (ex_entry 100 500 499 0) [] (ex_txs 103 502 [''b'', ''c'']) [])
   = (Inr (TxSetFrame_previous 501),
      ex_open 64 200 (ex_entry 100 500 499 0) [] (ex_txs 103 502 [''b'', ''c'']) []) \<and>
   getCurrentTxSet (ex_app None [] []) (ex_world (ex_entry 102 502 501 0))
     (ex_open 64 200 (ex_entry 100 500 499 0) [] (ex_txs 103 502 [''b'', ''c'']) [])
   = (Inr (TxSetFrame_xdr 7 \<lparr>ts_previousLedgerHash = 502, ts_txs = [''b'', ''c'']\<rparr>),
      ex_open 64 200 (ex_entry 100 500 499 0) [] (ex_txs 103 502 [''b'', ''c'']) [])"
  using
    getCurrentTxSet_compares_before_reading [of "ex_app None [] []" "ex_world (ex_entry 100 500 499 0)"
      "ex_open 64 200 (ex_entry 100 500 499 0) [] (ex_txs 100 499 [''a''])
        [Inr (ex_txs 103 502 [''b'', ''c''])]"]
    getCurrentTxSet_compares_before_reading [of "ex_app None [] []" "ex_world (ex_entry 101 501 500 0)"
      "ex_open 64 200 (ex_entry 100 500 499 0) [] (ex_txs 103 502 [''b'', ''c'']) []"]
    getCurrentTxSet_compares_before_reading [of "ex_app None [] []" "ex_world (ex_entry 102 502 501 0)"
      "ex_open 64 200 (ex_entry 100 500 499 0) [] (ex_txs 103 502 [''b'', ''c'']) []"]
  by (simp add: ex_defs replay_defs getCurrentTxSet_loop.simps)

section \<open>Meters\<close>

lemma other_fatal_rows_mark_failure:
  assumes "good (mHdrIn w)" and "readOne (mHdrIn w) = (Inr (Some h), s)"
      and "continuity_table h (getLastClosedLedgerHeader app (lm a)) = Fatal e"
      and "e \<noteq> FailedToConnectOnLCLPredecessor"
  shows "applyHistoryOfSingleLedger app a w =
           (Inl (runtime_error e), markFailure a, w\<lparr>mHdrIn := s\<rparr>) \<and>
         mApplyLedgerFailure (markFailure a) = mApplyLedgerFailure a + 1 \<and>
         mApplyLedgerSuccess (markFailure a) = mApplyLedgerSuccess a"
  using assms
  by (auto simp: applyHistoryOfSingleLedger_def continuity_table_def markFailure_def Let_def
        split: if_splits)

lemma txset_hash_mismatch_marks_failure:
  assumes "getCurrentTxSet app a w = (Inr txset, w2)"
      and "txSetHash (scpValue (header h)) \<noteq> getContentsHash app txset"
  shows "applyValidatedLedger app a w h =
           (Inl (runtime_error TxSetHashDiffers), markFailure a, w2)"
  using assms by (simp add: applyValidatedLedger_def)

lemma post_apply_hash_decides_meter:
  assumes "getCurrentTxSet app a w = (Inr txset, w2)"
      and "txSetHash (scpValue (header h)) = getContentsHash app txset"
      and "closeLedger app
             \<lparr>lcd_ledgerSeq = ledgerSeq (header h), lcd_txSet = txset,
              lcd_value = scpValue (header h)\<rparr> (lm a) = (None, l')"
  shows "mApplyLedgerFailure (fst (snd (applyValidatedLedger app a w h))) =
           (if hash (getLastClosedLedgerHeader app l') \<noteq> hash h
            then mApplyLedgerFailure a + 1 else mApplyLedgerFailure a) \<and>
         mApplyLedgerSuccess (fst (snd (applyValidatedLedger app a w h))) =
           (if hash (getLastClosedLedgerHeader app l') \<noteq> hash h
            then mApplyLedgerSuccess a else mApplyLedgerSuccess a + 1)"
  using assms
  by (simp add: applyValidatedLedger_def Let_def markFailure_def markSuccess_def)

text \<open>
  C9: the failure meter is meant to be marked once for every chain or logic failure.
  The predecessor-hash mismatch of the one-before-LCL row throws without marking it:
  the world, and with it \<open>mApplyLedgerFailure\<close>, is returned as it was, where the at-LCL
  mismatch next to it marks the meter before it throws.
\<close>

theorem predecessor_mismatch_leaves_failure_meter:
  assumes "good (mHdrIn w)" and "readOne (mHdrIn w) = (Inr (Some h), s)"
      and "ledgerSeq (header h) + 1 = ledgerSeq (header (getLastClosedLedgerHeader app (lm a)))"
      and "hash h \<noteq> previousLedgerHash (header (getLastClosedLedgerHeader app (lm a)))"
  shows "applyHistoryOfSingleLedger app a w =
           (Inl (runtime_error FailedToConnectOnLCLPredecessor), a, w\<lparr>mHdrIn := s\<rparr>) \<and>
         mApplyLedgerFailure (fst (snd (applyHistoryOfSingleLedger app a w))) =
           mApplyLedgerFailure a"
  using assms by (simp add: applyHistoryOfSingleLedger_def Let_def)

theorem predecessor_mismatch_leaves_failure_meter_witness:
  "applyHistoryOfSingleLedger (ex_app None [] []) (ex_world (ex_entry 63 500 499 0))
     (ex_open 64 200 (ex_entry 63 500 499 0) [Inr (ex_entry 62 777 498 0)] TransactionHistoryEntry_init [])
   = (Inl (runtime_error FailedToConnectOnLCLPredecessor), ex_world (ex_entry 63 500 499 0),
      ex_open 64 200 (ex_entry 63 500 499 0) [] TransactionHistoryEntry_init []) \<and>
   onRun (ex_app None [] []) (ex_world (ex_entry 63 500 499 0))
     (ex_open 64 200 (ex_entry 63 500 499 0) [Inr (ex_entry 62 777 498 0)] TransactionHistoryEntry_init [])
   = (Inr WORK_FAILURE, ex_world (ex_entry 63 500 499 0),
      ex_open 64 200 (ex_entry 63 500 499 0) [] TransactionHistoryEntry_init []) \<and>
   mApplyLedgerFailure (ex_world (ex_entry 63 500 499 0)) = 0 \<and>
   mApplyLedgerFailure (fst (snd (onRun (ex_app None [] []) (ex_world (ex_entry 63 500 499 0))
     (ex_open 64 200 (ex_entry 63 500 499 0) [Inr (ex_entry 63 777 499 0)] TransactionHistoryEntry_init []))))
   = 1"
  using predecessor_mismatch_leaves_failure_meter
      [of "ex_open 64 200 (ex_entry 63 500 499 0) [Inr (ex_entry 62 777 498 0)] TransactionHistoryEntry_init []"
        "ex_entry 62 777 498 0" "Opened []" "ex_app None [] []" "ex_world (ex_entry 63 500 499 0)"]
  by (simp add: ex_defs replay_defs)

section \<open>Chain break\<close>

lemma no_wrap_next:
  assumes "(L::32 word) < 0xFFFFFFFE"
  shows "\<not> (L + 1 + 1 < L) \<and> L + 1 + 1 \<noteq> L \<and> L + 1 \<noteq> L"
proof -
  have l: "unat L < 4294967294"
    using assms by (simp add: word_less_nat_alt)
  have a1: "unat (L + 1) = unat L + 1"
    using l by (simp add: unat_word_ariths)
  have a2: "unat (L + 1 + 1) = unat L + 2"
    using l a1 by (simp add: unat_word_ariths)
  have "\<not> unat (L + 1 + 1) < unat L" "unat (L + 1 + 1) \<noteq> unat L" "unat (L + 1) \<noteq> unat L"
    using a1 a2 by simp_all
  then show ?thesis
    by (metis word_less_nat_alt)
qed

lemma onRun_try_filesReady:
  "onRun_try app a w =
     (case filesReady app w of
        (Inl x, w1) \<Rightarrow> (Inl x, a, w1)
      | (Inr u, w1) \<Rightarrow>
          (case applyHistoryOfSingleLedger app a w1 of
             (Inl x, a2, w2) \<Rightarrow> (Inl x, a2, w2)
           | (Inr applied, a2, w2) \<Rightarrow>
               (Inr (if ledgerSeq (header (getLastClosedLedgerHeader app (lm a2))) = mLast (mRange w2)
                     then WORK_SUCCESS else WORK_RUNNING),
                a2\<lparr>catchupStatusUpdates := catchupStatusUpdates a2 + 1\<rparr>,
                if applied then w2
                else w2\<lparr>mCurrSeq := mCurrSeq w2 + getCheckpointFrequency app,
                        mFilesOpen := False\<rparr>)))"
proof -
  obtain r1 w1 where f: "filesReady app w = (r1, w1)"
    by (cases "filesReady app w")
  obtain r2 a2 w2 where g: "applyHistoryOfSingleLedger app a w1 = (r2, a2, w2)"
    by (cases "applyHistoryOfSingleLedger app a w1")
  show ?thesis
    unfolding onRun_try_def filesReady_def [symmetric] f
    using g by (cases r1; cases r2) (simp_all add: Let_def)
qed

text \<open>
  C3, as amended: for every header read whose sequence is the LCL sequence plus one, with
  the LCL sequence below \<open>2 ^ 32 - 2\<close> so that neither that sum nor the header's sequence
  plus one wraps around, and whose previous hash differs from the LCL hash, \<^verbatim>\<open>onRun\<close>
  returns \<^verbatim>\<open>WORK_FAILURE\<close>; the failure meter is marked, the sink is not called, and
  the transaction stream and its look-ahead entry are as they were before the header
  was read.
\<close>

theorem chain_break_fails_before_any_apply:
  assumes ready: "filesReady app w = (Inr (), w1)"
      and live: "good (mHdrIn w1)"
      and rd: "readOne (mHdrIn w1) = (Inr (Some h), s)"
      and nxt: "ledgerSeq (header h) = ledgerSeq (header (getLastClosedLedgerHeader app (lm a))) + 1"
      and nowrap: "ledgerSeq (header (getLastClosedLedgerHeader app (lm a))) < 0xFFFFFFFE"
      and brk: "previousLedgerHash (header h) \<noteq> hash (getLastClosedLedgerHeader app (lm a))"
  shows "onRun app a w = (Inr WORK_FAILURE, markFailure a, w1\<lparr>mHdrIn := s\<rparr>) \<and>
         closeLedgerCalls (markFailure a) = closeLedgerCalls a \<and>
         lm (markFailure a) = lm a \<and>
         mTxIn (w1\<lparr>mHdrIn := s\<rparr>) = mTxIn w1 \<and>
         mTxHistoryEntry (w1\<lparr>mHdrIn := s\<rparr>) = mTxHistoryEntry w1 \<and>
         mLastApplied (w1\<lparr>mHdrIn := s\<rparr>) = mLastApplied w1"
proof -
  have "applyHistoryOfSingleLedger app a w1 =
          (Inl (runtime_error DisagreedOnLCLHash), markFailure a, w1\<lparr>mHdrIn := s\<rparr>)"
    using live rd nxt brk no_wrap_next [OF nowrap]
    by (simp add: applyHistoryOfSingleLedger_def Let_def)
  then have "onRun app a w = (Inr WORK_FAILURE, markFailure a, w1\<lparr>mHdrIn := s\<rparr>)"
    using ready by (simp add: onRun_def onRun_try_filesReady)
  then show ?thesis
    by (simp add: markFailure_def)
qed

theorem chain_break_fails_before_any_apply_witness:
  "filesReady (ex_app None [Inr (ex_entry 64 501 123 500)] [])
     (onReset (ex_app None [Inr (ex_entry 64 501 123 500)] []) (ex_world (ex_entry 63 500 499 0))
        (ex_new 64 200))
     = (Inr (), ex_open 64 200 (ex_entry 63 500 499 0) [Inr (ex_entry 64 501 123 500)]
                  TransactionHistoryEntry_init []) \<and>
   onRun (ex_app None [Inr (ex_entry 64 501 123 500)] []) (ex_world (ex_entry 63 500 499 0))
     (onReset (ex_app None [Inr (ex_entry 64 501 123 500)] []) (ex_world (ex_entry 63 500 499 0))
        (ex_new 64 200))
   = (Inr WORK_FAILURE, markFailure (ex_world (ex_entry 63 500 499 0)),
      ex_open 64 200 (ex_entry 63 500 499 0) [] TransactionHistoryEntry_init [])"
  using chain_break_fails_before_any_apply [of "ex_app None [Inr (ex_entry 64 501 123 500)] []"
      "onReset (ex_app None [Inr (ex_entry 64 501 123 500)] []) (ex_world (ex_entry 63 500 499 0))
        (ex_new 64 200)"
      "ex_open 64 200 (ex_entry 63 500 499 0) [Inr (ex_entry 64 501 123 500)] TransactionHistoryEntry_init []"
      "ex_entry 64 501 123 500" "Opened []" "ex_world (ex_entry 63 500 499 0)"]
  by (simp add: ex_defs filesReady_def openCurrentInputFiles_def onReset_def Let_def)

text \<open>
  C3 as stated fails where the sequence wraps around: with the LCL at \<open>2 ^ 32 - 2\<close> the
  next header has sequence \<open>2 ^ 32 - 1\<close>, its sequence plus one is 0 in \<^verbatim>\<open>uint32\<close>, which
  is below the LCL sequence, so the first row of the table skips the header as too old
  and the step returns \<^verbatim>\<open>WORK_RUNNING\<close> although the previous hash does not match.
\<close>

theorem chain_break_skipped_at_wrap_around:
  "ledgerSeq (header (ex_entry 0xFFFFFFFF 501 123 500))
     = ledgerSeq (header (getLastClosedLedgerHeader (ex_app None [] [])
         (lm (ex_world (ex_entry 0xFFFFFFFE 500 499 0))))) + 1 \<and>
   previousLedgerHash (header (ex_entry 0xFFFFFFFF 501 123 500))
     \<noteq> hash (getLastClosedLedgerHeader (ex_app None [] [])
         (lm (ex_world (ex_entry 0xFFFFFFFE 500 499 0)))) \<and>
   onRun (ex_app None [] []) (ex_world (ex_entry 0xFFFFFFFE 500 499 0))
     (ex_open 64 0xFFFFFFFF (ex_entry 0xFFFFFFFE 500 499 0) [Inr (ex_entry 0xFFFFFFFF 501 123 500)]
        TransactionHistoryEntry_init [])
   = (Inr WORK_RUNNING,
      (ex_world (ex_entry 0xFFFFFFFE 500 499 0))\<lparr>catchupStatusUpdates := 1\<rparr>,
      ex_open 64 0xFFFFFFFF (ex_entry 0xFFFFFFFE 500 499 0) [] TransactionHistoryEntry_init [])"
  by (simp add: ex_defs replay_defs)

section \<open>Checkpoint rollover\<close>

lemma filesReady_keeps:
  "filesReady app w = (r, w1) \<Longrightarrow>
     mRange w1 = mRange w \<and> mCurrSeq w1 = mCurrSeq w \<and> mLastApplied w1 = mLastApplied w"
  by (auto simp: filesReady_def openCurrentInputFiles_def Let_def split: if_splits option.splits)

lemma openCurrentInputFiles_opened:
  "openCurrentInputFiles app w = (Inr u, v) \<Longrightarrow>
     mFilesOpen v \<and> mTxHistoryEntry v = TransactionHistoryEntry_init \<and>
     ledgerFile app (mCurrSeq w) = Some (case mHdrIn v of Opened hs \<Rightarrow> hs | Closed \<Rightarrow> []) \<and>
     transactionsFile app (mCurrSeq w) = Some (case mTxIn v of Opened ts \<Rightarrow> ts | Closed \<Rightarrow> []) \<and>
     good (mHdrIn v) \<and> good (mTxIn v) \<and> mCurrSeq v = mCurrSeq w"
  by (auto simp: openCurrentInputFiles_def Let_def split: option.splits)

lemma onRun_try_reopens:
  assumes "\<not> mFilesOpen w"
  shows "onRun_try app a w =
     (case openCurrentInputFiles app w of
        (Inl x, v) \<Rightarrow> (Inl x, a, v)
      | (Inr u, v) \<Rightarrow> onRun_try app a v)"
proof -
  obtain r v where o: "openCurrentInputFiles app w = (r, v)"
    by (cases "openCurrentInputFiles app w")
  show ?thesis
  proof (cases r)
    case (Inl x)
    with o assms show ?thesis
      by (simp add: onRun_try_filesReady filesReady_def)
  next
    case (Inr u)
    with o have "mFilesOpen v"
      using openCurrentInputFiles_opened by blast
    with o Inr assms show ?thesis
      by (simp add: onRun_try_filesReady filesReady_def)
  qed
qed

lemma applyHistoryOfSingleLedger_exhausted:
  assumes "\<not> good (mHdrIn w) \<or> fst (readOne (mHdrIn w)) = Inr None"
  shows "applyHistoryOfSingleLedger app a w = (Inr False, a, w\<lparr>mHdrIn := snd (readOne (mHdrIn w))\<rparr>)"
proof (cases "mHdrIn w")
  case Closed
  then show ?thesis
    by (simp add: applyHistoryOfSingleLedger_def)
next
  case (Opened xs)
  with assms show ?thesis
    by (cases "Opened xs :: LedgerHeaderHistoryEntry XDRInputFileStream" rule: readOne.cases)
      (auto simp: applyHistoryOfSingleLedger_def)
qed

lemma openCurrentInputFiles_cases:
  "openCurrentInputFiles app w =
     (case ledgerFile app (mCurrSeq w) of
        None \<Rightarrow> (Inl FileSystemException, w\<lparr>mHdrIn := Closed, mTxIn := Closed\<rparr>)
      | Some hs \<Rightarrow>
          (case transactionsFile app (mCurrSeq w) of
             None \<Rightarrow> (Inl FileSystemException, w\<lparr>mHdrIn := Opened hs, mTxIn := Closed\<rparr>)
           | Some ts \<Rightarrow>
               (Inr (), w\<lparr>mHdrIn := Opened hs, mTxIn := Opened ts,
                          mTxHistoryEntry := TransactionHistoryEntry_init,
                          mFilesOpen := True\<rparr>)))"
  by (simp add: openCurrentInputFiles_def Let_def split: option.splits)


text \<open>
  C5: when the header stream of the current checkpoint has no record left (after the
  files were opened from the two files of the cursor, if they were not open), the step
  throws nothing and returns \<^verbatim>\<open>WORK_RUNNING\<close> or \<^verbatim>\<open>WORK_SUCCESS\<close> after reporting progress
  once; the checkpoint cursor has advanced by the checkpoint frequency (in \<^verbatim>\<open>uint32\<close>)
  and the files are marked not open. The next step therefore begins by opening the files
  of the new cursor: a missing file is a \<^verbatim>\<open>FileSystemException\<close>, and otherwise both
  streams stand at the start of the records of the new checkpoint and the look-ahead
  entry is the initial one, before anything is read.
\<close>

theorem exhausted_header_stream_rolls_over:
  assumes ready: "filesReady app w = (Inr (), w1)"
      and exhausted: "\<not> good (mHdrIn w1) \<or> fst (readOne (mHdrIn w1)) = Inr None"
  shows "(let w' = w1\<lparr>mHdrIn := snd (readOne (mHdrIn w1)),
                      mCurrSeq := mCurrSeq w + getCheckpointFrequency app,
                      mFilesOpen := False\<rparr>
          in onRun app a w =
               (Inr (if ledgerSeq (header (getLastClosedLedgerHeader app (lm a))) = mLast (mRange w)
                     then WORK_SUCCESS else WORK_RUNNING),
                a\<lparr>catchupStatusUpdates := catchupStatusUpdates a + 1\<rparr>, w') \<and>
             mCurrSeq w' = mCurrSeq w + getCheckpointFrequency app \<and>
             mFilesOpen w' = False \<and>
             (\<forall>a2. onRun_try app a2 w' =
                (case openCurrentInputFiles app w' of
                   (Inl x, v) \<Rightarrow> (Inl x, a2, v)
                 | (Inr u, v) \<Rightarrow> onRun_try app a2 v)) \<and>
             (\<forall>u v. openCurrentInputFiles app w' = (Inr u, v) \<longrightarrow>
                mFilesOpen v \<and> mTxHistoryEntry v = TransactionHistoryEntry_init \<and>
                mCurrSeq v = mCurrSeq w + getCheckpointFrequency app) \<and>
             openCurrentInputFiles app w' =
               (case ledgerFile app (mCurrSeq w + getCheckpointFrequency app) of
                  None \<Rightarrow> (Inl FileSystemException, w'\<lparr>mHdrIn := Closed, mTxIn := Closed\<rparr>)
                | Some hs \<Rightarrow>
                    (case transactionsFile app (mCurrSeq w + getCheckpointFrequency app) of
                       None \<Rightarrow>
                         (Inl FileSystemException, w'\<lparr>mHdrIn := Opened hs, mTxIn := Closed\<rparr>)
                     | Some ts \<Rightarrow>
                         (Inr (), w'\<lparr>mHdrIn := Opened hs, mTxIn := Opened ts,
                                     mTxHistoryEntry := TransactionHistoryEntry_init,
                                     mFilesOpen := True\<rparr>))) \<and>
             (\<not> mFilesOpen w \<longrightarrow>
                (\<exists>hs ts. ledgerFile app (mCurrSeq w) = Some hs \<and>
                   transactionsFile app (mCurrSeq w) = Some ts \<and>
                   w1 = w\<lparr>mHdrIn := Opened hs, mTxIn := Opened ts,
                          mTxHistoryEntry := TransactionHistoryEntry_init,
                          mFilesOpen := True\<rparr>)) \<and>
             (mFilesOpen w \<longrightarrow> w1 = w))"
proof -
  let ?w' = "w1\<lparr>mHdrIn := snd (readOne (mHdrIn w1)),
                  mCurrSeq := mCurrSeq w + getCheckpointFrequency app,
                  mFilesOpen := False\<rparr>"
  from filesReady_keeps [OF ready]
  have keep: "mRange w1 = mRange w" "mCurrSeq w1 = mCurrSeq w"
    by simp_all
  have run: "onRun app a w =
       (Inr (if ledgerSeq (header (getLastClosedLedgerHeader app (lm a))) = mLast (mRange w)
             then WORK_SUCCESS else WORK_RUNNING),
        a\<lparr>catchupStatusUpdates := catchupStatusUpdates a + 1\<rparr>, ?w')"
    using ready keep applyHistoryOfSingleLedger_exhausted [OF exhausted, of app a]
    by (simp add: onRun_def onRun_try_filesReady)
  have cur: "mCurrSeq ?w' = mCurrSeq w + getCheckpointFrequency app"
    by simp
  have closed: "mFilesOpen ?w' = False"
    by simp
  have reopen: "\<forall>a2. onRun_try app a2 ?w' =
        (case openCurrentInputFiles app ?w' of
           (Inl x, v) \<Rightarrow> (Inl x, a2, v)
         | (Inr u, v) \<Rightarrow> onRun_try app a2 v)"
    using onRun_try_reopens [of ?w' app] closed by blast
  have fresh: "\<forall>u v. openCurrentInputFiles app ?w' = (Inr u, v) \<longrightarrow>
        mFilesOpen v \<and> mTxHistoryEntry v = TransactionHistoryEntry_init \<and>
        mCurrSeq v = mCurrSeq w + getCheckpointFrequency app"
  proof (intro allI impI)
    fix u v
    assume "openCurrentInputFiles app ?w' = (Inr u, v)"
    from openCurrentInputFiles_opened [OF this]
    show "mFilesOpen v \<and> mTxHistoryEntry v = TransactionHistoryEntry_init \<and>
        mCurrSeq v = mCurrSeq w + getCheckpointFrequency app"
      by simp
  qed
  have files: "openCurrentInputFiles app ?w' =
       (case ledgerFile app (mCurrSeq w + getCheckpointFrequency app) of
          None \<Rightarrow> (Inl FileSystemException, ?w'\<lparr>mHdrIn := Closed, mTxIn := Closed\<rparr>)
        | Some hs \<Rightarrow>
            (case transactionsFile app (mCurrSeq w + getCheckpointFrequency app) of
               None \<Rightarrow>
                 (Inl FileSystemException, ?w'\<lparr>mHdrIn := Opened hs, mTxIn := Closed\<rparr>)
             | Some ts \<Rightarrow>
                 (Inr (), ?w'\<lparr>mHdrIn := Opened hs, mTxIn := Opened ts,
                             mTxHistoryEntry := TransactionHistoryEntry_init,
                             mFilesOpen := True\<rparr>)))"
    unfolding openCurrentInputFiles_cases [of app ?w'] cur ..
  have first: "\<not> mFilesOpen w \<longrightarrow>
       (\<exists>hs ts. ledgerFile app (mCurrSeq w) = Some hs \<and>
          transactionsFile app (mCurrSeq w) = Some ts \<and>
          w1 = w\<lparr>mHdrIn := Opened hs, mTxIn := Opened ts,
                 mTxHistoryEntry := TransactionHistoryEntry_init,
                 mFilesOpen := True\<rparr>)"
  proof
    assume "\<not> mFilesOpen w"
    with ready have o: "openCurrentInputFiles app w = (Inr (), w1)"
      by (simp add: filesReady_def)
    show "\<exists>hs ts. ledgerFile app (mCurrSeq w) = Some hs \<and>
          transactionsFile app (mCurrSeq w) = Some ts \<and>
          w1 = w\<lparr>mHdrIn := Opened hs, mTxIn := Opened ts,
                 mTxHistoryEntry := TransactionHistoryEntry_init,
                 mFilesOpen := True\<rparr>"
    proof (cases "ledgerFile app (mCurrSeq w)")
      case None
      with o show ?thesis
        by (simp add: openCurrentInputFiles_cases)
    next
      case hs: (Some hs)
      show ?thesis
      proof (cases "transactionsFile app (mCurrSeq w)")
        case None
        with o hs show ?thesis
          by (simp add: openCurrentInputFiles_cases)
      next
        case (Some ts)
        with o hs show ?thesis
          by (simp add: openCurrentInputFiles_cases)
      qed
    qed
  qed
  have already: "mFilesOpen w \<longrightarrow> w1 = w"
    using ready by (auto simp: filesReady_def)
  show ?thesis
    unfolding Let_def
    by (intro conjI run cur closed reopen fresh files first already)
qed

theorem exhausted_header_stream_rolls_over_witness:
  "filesReady (ex_app None [] [])
     (onReset (ex_app None [] []) (ex_world (ex_entry 69 500 499 0)) (ex_new 70 140))
   = (Inr (), ex_open 70 140 (ex_entry 69 500 499 0) [] TransactionHistoryEntry_init []) \<and>
   onRun (ex_app None [] []) (ex_world (ex_entry 69 500 499 0))
     (onReset (ex_app None [] []) (ex_world (ex_entry 69 500 499 0)) (ex_new 70 140))
   = (Inr WORK_RUNNING, (ex_world (ex_entry 69 500 499 0))\<lparr>catchupStatusUpdates := 1\<rparr>,
      (ex_open 70 140 (ex_entry 69 500 499 0) [] TransactionHistoryEntry_init [])
        \<lparr>mCurrSeq := 191, mFilesOpen := False\<rparr>) \<and>
   onRun (ex_app None [Inr (ex_entry 70 501 500 500)] [Inr (ex_txs 103 502 [''tx''])])
     (ex_world (ex_entry 69 500 499 0))
     ((ex_open 10 140 (ex_entry 69 500 499 0) [] (ex_txs 60 400 [''old'']) [])\<lparr>mCurrSeq := 63\<rparr>)
   = (Inr WORK_RUNNING, (ex_world (ex_entry 69 500 499 0))\<lparr>catchupStatusUpdates := 1\<rparr>,
      (ex_open 10 140 (ex_entry 69 500 499 0) [] (ex_txs 60 400 [''old'']) [])
        \<lparr>mFilesOpen := False\<rparr>) \<and>
   openCurrentInputFiles (ex_app None [Inr (ex_entry 70 501 500 500)] [Inr (ex_txs 103 502 [''tx''])])
     ((ex_open 10 140 (ex_entry 69 500 499 0) [] (ex_txs 60 400 [''old'']) [])
        \<lparr>mFilesOpen := False\<rparr>)
   = (Inr (), ex_open 10 140 (ex_entry 69 500 499 0) [Inr (ex_entry 70 501 500 500)]
                TransactionHistoryEntry_init [Inr (ex_txs 103 502 [''tx''])])"
  using
    exhausted_header_stream_rolls_over [of "ex_app None [] []"
        "onReset (ex_app None [] []) (ex_world (ex_entry 69 500 499 0)) (ex_new 70 140)"
        "ex_open 70 140 (ex_entry 69 500 499 0) [] TransactionHistoryEntry_init []"
        "ex_world (ex_entry 69 500 499 0)"]
    exhausted_header_stream_rolls_over [of "ex_app None [Inr (ex_entry 70 501 500 500)] [Inr (ex_txs 103 502 [''tx''])]"
        "(ex_open 10 140 (ex_entry 69 500 499 0) [] (ex_txs 60 400 [''old'']) [])\<lparr>mCurrSeq := 63\<rparr>"
        "(ex_open 10 140 (ex_entry 69 500 499 0) [] (ex_txs 60 400 [''old'']) [])\<lparr>mCurrSeq := 63\<rparr>"
        "ex_world (ex_entry 69 500 499 0)"]
  by (simp add: ex_defs filesReady_def openCurrentInputFiles_def onReset_def Let_def)

section \<open>Reset\<close>

text \<open>
  The range is a member the constructor sets; a reset with another range is \<^verbatim>\<open>onReset\<close> on
  a work that holds that range, whatever its other members were left at.
\<close>

lemma onRun_same_but_lookahead:
  assumes "same_but_lookahead w v"
  shows "fst (onRun app a w) = fst (onRun app a v) \<and>
         fst (snd (onRun app a w)) = fst (snd (onRun app a v)) \<and>
         same_but_lookahead (snd (snd (onRun app a w))) (snd (snd (onRun app a v)))"
proof (cases "w = v")
  case True
  then show ?thesis by (simp add: same_but_lookahead_def)
next
  case False
  with assms have closed: "\<not> mFilesOpen w" and v: "v = w\<lparr>mTxHistoryEntry := mTxHistoryEntry v\<rparr>"
    by (auto simp: same_but_lookahead_def)
  have closed_v: "\<not> mFilesOpen v"
    using closed by (subst v) simp
  have cur: "mCurrSeq v = mCurrSeq w"
    by (subst v) simp
  show ?thesis
  proof (cases "ledgerFile app (mCurrSeq w)")
    case None
    have "openCurrentInputFiles app w = (Inl FileSystemException, w\<lparr>mHdrIn := Closed, mTxIn := Closed\<rparr>)"
      "openCurrentInputFiles app v = (Inl FileSystemException, v\<lparr>mHdrIn := Closed, mTxIn := Closed\<rparr>)"
      using None cur by (simp_all add: openCurrentInputFiles_def)
    moreover have "same_but_lookahead (w\<lparr>mHdrIn := Closed, mTxIn := Closed\<rparr>)
        (v\<lparr>mHdrIn := Closed, mTxIn := Closed\<rparr>)"
      using closed by (subst v) (simp add: same_but_lookahead_def)
    ultimately show ?thesis
      using closed closed_v by (simp add: onRun_def onRun_try_reopens)
  next
    case (Some hs)
    show ?thesis
    proof (cases "transactionsFile app (mCurrSeq w)")
      case None
      have "openCurrentInputFiles app w =
              (Inl FileSystemException, w\<lparr>mHdrIn := Opened hs, mTxIn := Closed\<rparr>)"
        "openCurrentInputFiles app v =
              (Inl FileSystemException, v\<lparr>mHdrIn := Opened hs, mTxIn := Closed\<rparr>)"
        using None Some cur by (simp_all add: openCurrentInputFiles_def)
      moreover have "same_but_lookahead (w\<lparr>mHdrIn := Opened hs, mTxIn := Closed\<rparr>)
          (v\<lparr>mHdrIn := Opened hs, mTxIn := Closed\<rparr>)"
        using closed by (subst v) (simp add: same_but_lookahead_def)
      ultimately show ?thesis
        using closed closed_v by (simp add: onRun_def onRun_try_reopens)
    next
      case ts: (Some ts)
      have "openCurrentInputFiles app v = openCurrentInputFiles app w"
        using Some ts cur by (subst v) (simp add: openCurrentInputFiles_def)
      then have "onRun app a v = onRun app a w"
        using closed closed_v by (simp add: onRun_def onRun_try_reopens)
      then show ?thesis
        by (simp add: same_but_lookahead_def)
    qed
  qed
qed

lemma onRun_steps_same_but_lookahead:
  "same_but_lookahead w v \<Longrightarrow>
     fst (onRun_steps app n a w) = fst (onRun_steps app n a v) \<and>
     fst (snd (onRun_steps app n a w)) = fst (snd (onRun_steps app n a v)) \<and>
     same_but_lookahead (snd (snd (onRun_steps app n a w))) (snd (snd (onRun_steps app n a v)))"
proof (induction n arbitrary: a w v)
  case 0
  then show ?case by simp
next
  case (Suc n)
  obtain r a1 w1 where rw: "onRun app a w = (r, a1, w1)"
    by (metis prod_cases3)
  obtain r' a1' v1 where rv: "onRun app a v = (r', a1', v1)"
    by (metis prod_cases3)
  from onRun_same_but_lookahead [OF Suc.prems, of app a] rw rv
  have eq: "r' = r" "a1' = a1" and rel: "same_but_lookahead w1 v1"
    by simp_all
  from Suc.IH [OF rel, of a1] show ?case
    using rw rv eq by (simp add: split_def)
qed

lemma onReset_leaves_lookahead:
  "mTxHistoryEntry (onReset app a w) = mTxHistoryEntry w"
  by (simp add: onReset_def)

text \<open>
  C8: \<^verbatim>\<open>onReset\<close> is idempotent, and after a reset with a new range, whatever the
  progress before it, \<open>mLastApplied\<close> is the sink's LCL header, the cursor is the
  checkpoint containing the first sequence of the new range, the files are marked not
  open and both streams are closed. The state is the one a reset of any other work with
  that range gives, in every member but the look-ahead entry \<open>mTxHistoryEntry\<close>, which
  \<^verbatim>\<open>onReset\<close> leaves to the next opening of the files. That entry cannot affect what
  follows: any number of steps after the reset return the same results and leave the
  same world, and the works stay the same up to a look-ahead entry that is overwritten
  when the files are opened, before it is read.
\<close>

theorem onReset_reinitializes_up_to_lookahead:
  "onReset app a (onReset app a w) = onReset app a w \<and>
   mRange (onReset app a (w\<lparr>mRange := r\<rparr>)) = r \<and>
   mLastApplied (onReset app a (w\<lparr>mRange := r\<rparr>)) = getLastClosedLedgerHeader app (lm a) \<and>
   mCurrSeq (onReset app a (w\<lparr>mRange := r\<rparr>)) = checkpointContainingLedger app (mFirst r) \<and>
   mFilesOpen (onReset app a (w\<lparr>mRange := r\<rparr>)) = False \<and>
   mHdrIn (onReset app a (w\<lparr>mRange := r\<rparr>)) = Closed \<and>
   mTxIn (onReset app a (w\<lparr>mRange := r\<rparr>)) = Closed \<and>
   onReset app a (w\<lparr>mRange := r\<rparr>) =
     (onReset app a (w0\<lparr>mRange := r\<rparr>))\<lparr>mTxHistoryEntry := mTxHistoryEntry w\<rparr> \<and>
   fst (onRun_steps app n a' (onReset app a (w\<lparr>mRange := r\<rparr>))) =
     fst (onRun_steps app n a' (onReset app a (w0\<lparr>mRange := r\<rparr>))) \<and>
   fst (snd (onRun_steps app n a' (onReset app a (w\<lparr>mRange := r\<rparr>)))) =
     fst (snd (onRun_steps app n a' (onReset app a (w0\<lparr>mRange := r\<rparr>)))) \<and>
   same_but_lookahead
     (snd (snd (onRun_steps app n a' (onReset app a (w\<lparr>mRange := r\<rparr>)))))
     (snd (snd (onRun_steps app n a' (onReset app a (w0\<lparr>mRange := r\<rparr>)))))"
proof -
  have fields: "onReset app a (w\<lparr>mRange := r\<rparr>) =
     (onReset app a (w0\<lparr>mRange := r\<rparr>))\<lparr>mTxHistoryEntry := mTxHistoryEntry w\<rparr>"
    by (simp add: onReset_def)
  have rel: "same_but_lookahead (onReset app a (w\<lparr>mRange := r\<rparr>)) (onReset app a (w0\<lparr>mRange := r\<rparr>))"
    by (simp add: same_but_lookahead_def onReset_def)
  have idem: "onReset app a (onReset app a w) = onReset app a w"
    by (simp add: onReset_def)
  from onRun_steps_same_but_lookahead [OF rel, of app n a'] fields idem show ?thesis
    by (simp add: onReset_def)
qed

theorem onReset_reinitializes_up_to_lookahead_witness:
  "onReset (ex_app None [Inr (ex_entry 69 500 499 0)] []) (ex_world (ex_entry 69 500 499 0))
     ((ex_open 64 200 (ex_entry 68 499 498 0) [] (ex_txs 103 502 [''tx'']) [])
        \<lparr>mCurrSeq := 191, mRange := \<lparr>mFirst = 70, mLast = 140\<rparr>\<rparr>)
   = (ex_new 70 140)\<lparr>mLastApplied := ex_entry 69 500 499 0, mCurrSeq := 127,
        mTxHistoryEntry := ex_txs 103 502 [''tx'']\<rparr> \<and>
   onRun_steps (ex_app None [Inr (ex_entry 69 500 499 0)] []) (Suc 0) (ex_world (ex_entry 69 500 499 0))
     (onReset (ex_app None [Inr (ex_entry 69 500 499 0)] []) (ex_world (ex_entry 69 500 499 0))
        ((ex_open 64 200 (ex_entry 68 499 498 0) [] (ex_txs 103 502 [''tx'']) [])
           \<lparr>mCurrSeq := 191, mRange := \<lparr>mFirst = 70, mLast = 140\<rparr>\<rparr>))
   = ([Inr WORK_RUNNING], (ex_world (ex_entry 69 500 499 0))\<lparr>catchupStatusUpdates := 1\<rparr>,
      ex_open 70 140 (ex_entry 69 500 499 0) [] TransactionHistoryEntry_init []) \<and>
   onRun_steps (ex_app None [Inr (ex_entry 69 500 499 0)] []) (Suc 0) (ex_world (ex_entry 69 500 499 0))
     (onReset (ex_app None [Inr (ex_entry 69 500 499 0)] []) (ex_world (ex_entry 69 500 499 0))
        ((ex_new 0 0)\<lparr>mRange := \<lparr>mFirst = 70, mLast = 140\<rparr>\<rparr>))
   = ([Inr WORK_RUNNING], (ex_world (ex_entry 69 500 499 0))\<lparr>catchupStatusUpdates := 1\<rparr>,
      ex_open 70 140 (ex_entry 69 500 499 0) [] TransactionHistoryEntry_init [])"
  using onReset_reinitializes_up_to_lookahead [of "ex_app None [Inr (ex_entry 69 500 499 0)] []" "ex_world (ex_entry 69 500 499 0)"
      "(ex_open 64 200 (ex_entry 68 499 498 0) [] (ex_txs 103 502 [''tx'']) [])\<lparr>mCurrSeq := 191\<rparr>"
      "\<lparr>mFirst = 70, mLast = 140\<rparr>" "ex_new 0 0" "Suc 0" "ex_world (ex_entry 69 500 499 0)"]
  by (simp add: ex_defs replay_defs)

section \<open>Success\<close>








text \<open>
  The sink contract is needed as well: in a run from \<^verbatim>\<open>onReset\<close> without any exception, a
  sink that reports a header of the next sequence under the archived hash lets the step
  succeed with \<open>mLastApplied\<close> one short of the last sequence of the range.
\<close>

lemma lastApplied_needs_sink_contract:
  "\<not> sink_reports_sequence (ex_skewed [Inr (ex_entry 64 501 500 500)] []) \<and>
   nonthrowing_steps (ex_skewed [Inr (ex_entry 64 501 500 500)] []) 0 (ex_world (ex_entry 63 500 499 0))
     (onReset (ex_skewed [Inr (ex_entry 64 501 500 500)] []) (ex_world (ex_entry 63 500 499 0))
        (ex_new 64 65))
   = Some (ex_world (ex_entry 63 500 499 0),
        onReset (ex_skewed [Inr (ex_entry 64 501 500 500)] []) (ex_world (ex_entry 63 500 499 0))
          (ex_new 64 65)) \<and>
   onRun_try (ex_skewed [Inr (ex_entry 64 501 500 500)] []) (ex_world (ex_entry 63 500 499 0))
     (onReset (ex_skewed [Inr (ex_entry 64 501 500 500)] []) (ex_world (ex_entry 63 500 499 0))
        (ex_new 64 65))
   = (Inr WORK_SUCCESS,
      \<lparr>lm = ex_entry 65 501 500 500,
        closeLedgerCalls = [\<lparr>lcd_ledgerSeq = 64, lcd_txSet = TxSetFrame_previous 500,
                             lcd_value = \<lparr>txSetHash = 500, closeTime = 0\<rparr>\<rparr>],
        mApplyLedgerSuccess = 1, mApplyLedgerFailure = 0, catchupStatusUpdates = 1\<rparr>,
      ex_open 64 65 (ex_entry 64 501 500 500) [] TransactionHistoryEntry_init [])"
proof -
  have "closeLedger (ex_skewed [Inr (ex_entry 64 501 500 500)] [])
          \<lparr>lcd_ledgerSeq = 64, lcd_txSet = TxSetFrame_previous 500,
           lcd_value = \<lparr>txSetHash = 500, closeTime = 0\<rparr>\<rparr> (ex_entry 63 500 499 0)
        = (None, ex_entry 65 501 500 500)"
    by (simp add: ex_defs ex_skewed_def)
  then have "\<not> sink_reports_sequence (ex_skewed [Inr (ex_entry 64 501 500 500)] [])"
    unfolding sink_reports_sequence_def
    by (auto simp: ex_defs ex_skewed_def)
  then show ?thesis
    by (simp add: ex_defs ex_skewed_def replay_defs getCurrentTxSet_loop.simps)
qed

end
